theory Spec2Isabelle
  imports Main "HOL-Library.Word"
begin

section \<open>The PrivacyProfessionalCertificate contract\<close>

text \<open>
  A shallow embedding of \<^verbatim>\<open>contracts/PrivacyProfessionalCertificate.sol\<close>
  (Solidity 0.8.24). Storage is a record that every external function takes and returns;
  a \<^verbatim>\<open>require\<close> that fails and an arithmetic overflow (checked since Solidity 0.8)
  are values of the type \<open>error\<close>; a call that reverts returns \<open>Inl\<close> and no storage,
  and \<open>commit\<close> gives the storage after the transaction (the old one after a revert).
  Events and the calls into the external access-control list of the FHE library are
  returned in the order the code makes them. The library is not part of the repository:
  its calls are taken to return, and what they compute is a parameter.
\<close>

subsection \<open>Value types\<close>

type_synonym address = "160 word"
type_synonym uint256 = "256 word"
type_synonym uint64 = "64 word"
type_synonym uint8 = "8 word"
type_synonym bytes32 = "256 word"

text \<open>\<^verbatim>\<open>euint64\<close> and \<^verbatim>\<open>euint8\<close> are \<^verbatim>\<open>bytes32\<close> handles of the FHE library.\<close>

type_synonym euint64 = bytes32
type_synonym euint8 = bytes32

record Certificate =
  holder :: address
  profession :: string
  encryptedScore :: euint64
  encryptedLevel :: euint8
  isValid :: bool
  issueDate :: uint256
  expiryDate :: uint256
  issuer :: string
  hashedCredentials :: bytes32

text \<open>
  The fields \<^verbatim>\<open>profession\<close>, \<^verbatim>\<open>encryptedScore\<close> and \<^verbatim>\<open>encryptedLevel\<close> of
  \<^verbatim>\<open>CertificationRequest\<close> carry the prefix \<open>r_\<close>, since a field name is a constant.
\<close>

record CertificationRequest =
  applicant :: address
  r_profession :: string
  r_encryptedScore :: euint64
  r_encryptedLevel :: euint8
  isProcessed :: bool
  isApproved :: bool
  requestTime :: uint256
  evidence :: string

text \<open>A Solidity mapping is total: a key never written holds the zero value.\<close>

record storage =
  owner :: address
  nextCertificateId :: uint256
  certificates :: "uint256 \<Rightarrow> Certificate"
  holderCertificates :: "address \<Rightarrow> uint256 list"
  certificationRequests :: "uint256 \<Rightarrow> CertificationRequest"
  authorizedIssuers :: "address \<Rightarrow> bool"
  minimumScoreRequirement :: "string \<Rightarrow> uint256"
  minimumLevelRequirement :: "string \<Rightarrow> uint8"
  nextRequestId :: uint256

datatype event =
    CertificateIssued uint256 address string
  | CertificationRequested uint256 address string
  | CertificationApproved uint256 uint256
  | CertificationRejected uint256 string
  | CertificateRevoked uint256 string
  | IssuerAuthorized address string
  | IssuerRevoked address

text \<open>
  What a transaction does besides writing storage: the events it emits and its calls
  \<^verbatim>\<open>FHE.allow\<close> and \<^verbatim>\<open>FHE.allowThis\<close> into the library's access-control list.
\<close>

datatype effect =
    Emit event
  | FHE_allow bytes32 address
  | FHE_allowThis bytes32

datatype error =
    Revert string
  | Panic_overflow

type_synonym 'a result = "error + 'a"

text \<open>\<^verbatim>\<open>msg.sender\<close> and \<^verbatim>\<open>block.timestamp\<close> of the call.\<close>

record env =
  msg_sender :: address
  block_timestamp :: uint256

text \<open>
  The primitives the contract calls and does not implement: the hash
  \<^verbatim>\<open>keccak256(abi.encodePacked(holder, profession, timestamp, id))\<close> and the trivial
  encryptions \<^verbatim>\<open>FHE.asEuint64\<close> and \<^verbatim>\<open>FHE.asEuint8\<close>. They are parameters of the model.
\<close>

record prims =
  keccak256_packed :: "address \<Rightarrow> string \<Rightarrow> uint256 \<Rightarrow> uint256 \<Rightarrow> bytes32"
  FHE_asEuint64 :: "uint64 \<Rightarrow> euint64"
  FHE_asEuint8 :: "uint8 \<Rightarrow> euint8"

subsection \<open>Checked arithmetic on \<^verbatim>\<open>uint256\<close>\<close>

definition checked_add :: "uint256 \<Rightarrow> uint256 \<Rightarrow> uint256 result" where
  "checked_add a b = (if unat a + unat b < 2 ^ 256 then Inr (a + b) else Inl Panic_overflow)"

definition checked_sub :: "uint256 \<Rightarrow> uint256 \<Rightarrow> uint256 result" where
  "checked_sub a b = (if b \<le> a then Inr (a - b) else Inl Panic_overflow)"

definition checked_mul :: "uint256 \<Rightarrow> uint256 \<Rightarrow> uint256 result" where
  "checked_mul a b = (if unat a * unat b < 2 ^ 256 then Inr (a * b) else Inl Panic_overflow)"

text \<open>The time units \<^verbatim>\<open>1 days\<close> and \<^verbatim>\<open>365 days\<close>, in seconds.\<close>

definition one_day :: uint256 where
  "one_day = 86400"

definition days365 :: uint256 where
  "days365 = 31536000"

subsection \<open>Modifiers\<close>

definition onlyOwner :: "env \<Rightarrow> storage \<Rightarrow> 'a result \<Rightarrow> 'a result" where
  "onlyOwner e s body =
     (if msg_sender e = owner s then body else Inl (Revert ''Not authorized''))"

definition onlyAuthorizedIssuer :: "env \<Rightarrow> storage \<Rightarrow> 'a result \<Rightarrow> 'a result" where
  "onlyAuthorizedIssuer e s body =
     (if authorizedIssuers s (msg_sender e) \<or> msg_sender e = owner s then body
      else Inl (Revert ''Not authorized issuer''))"

definition validCertificate :: "env \<Rightarrow> storage \<Rightarrow> uint256 \<Rightarrow> 'a result \<Rightarrow> 'a result" where
  "validCertificate e s certificateId body =
     (if \<not> (0 < certificateId \<and> certificateId \<le> nextCertificateId s)
        then Inl (Revert ''Invalid certificate ID'')
      else if \<not> isValid (certificates s certificateId)
        then Inl (Revert ''Certificate not valid'')
      else if \<not> (block_timestamp e < expiryDate (certificates s certificateId))
        then Inl (Revert ''Certificate expired'')
      else body)"

subsection \<open>Constructor\<close>

definition zero_certificate :: Certificate where
  "zero_certificate =
     \<lparr>holder = 0, profession = [], encryptedScore = 0, encryptedLevel = 0, isValid = False,
      issueDate = 0, expiryDate = 0, issuer = [], hashedCredentials = 0\<rparr>"

definition zero_request :: CertificationRequest where
  "zero_request =
     \<lparr>applicant = 0, r_profession = [], r_encryptedScore = 0, r_encryptedLevel = 0,
      isProcessed = False, isApproved = False, requestTime = 0, evidence = []\<rparr>"

definition constructor :: "env \<Rightarrow> storage" where
  "constructor e =
     \<lparr>owner = msg_sender e,
      nextCertificateId = 1,
      certificates = (\<lambda>_. zero_certificate),
      holderCertificates = (\<lambda>_. []),
      certificationRequests = (\<lambda>_. zero_request),
      authorizedIssuers = (\<lambda>_. False),
      minimumScoreRequirement =
        ((\<lambda>_. 0)(''Software Engineer'' := 75, ''Data Scientist'' := 80,
           ''Cybersecurity Specialist'' := 85, ''Project Manager'' := 70)),
      minimumLevelRequirement =
        ((\<lambda>_. 0)(''Software Engineer'' := 3, ''Data Scientist'' := 4,
           ''Cybersecurity Specialist'' := 4, ''Project Manager'' := 3)),
      nextRequestId = 1\<rparr>"

subsection \<open>Owner functions\<close>

definition authorizeIssuer ::
  "env \<Rightarrow> storage \<Rightarrow> address \<Rightarrow> string \<Rightarrow> (storage \<times> effect list) result" where
  "authorizeIssuer e s issuer' organization =
     onlyOwner e s
       (Inr (s\<lparr>authorizedIssuers := (authorizedIssuers s)(issuer' := True)\<rparr>,
             [Emit (IssuerAuthorized issuer' organization)]))"

definition revokeIssuer ::
  "env \<Rightarrow> storage \<Rightarrow> address \<Rightarrow> (storage \<times> effect list) result" where
  "revokeIssuer e s issuer' =
     onlyOwner e s
       (Inr (s\<lparr>authorizedIssuers := (authorizedIssuers s)(issuer' := False)\<rparr>,
             [Emit (IssuerRevoked issuer')]))"

definition setProfessionRequirements ::
  "env \<Rightarrow> storage \<Rightarrow> string \<Rightarrow> uint256 \<Rightarrow> uint8 \<Rightarrow> (storage \<times> effect list) result" where
  "setProfessionRequirements e s profession' minScore minLevel =
     onlyOwner e s
       (Inr (s\<lparr>minimumScoreRequirement := (minimumScoreRequirement s)(profession' := minScore),
               minimumLevelRequirement := (minimumLevelRequirement s)(profession' := minLevel)\<rparr>,
             []))"

definition emergencyPause :: "env \<Rightarrow> storage \<Rightarrow> (storage \<times> effect list) result" where
  "emergencyPause e s = onlyOwner e s (Inr (s, []))"

subsection \<open>Requests\<close>

definition requestCertification ::
  "prims \<Rightarrow> env \<Rightarrow> storage \<Rightarrow> string \<Rightarrow> uint64 \<Rightarrow> uint8 \<Rightarrow> string
     \<Rightarrow> (storage \<times> effect list) result" where
  "requestCertification X e s profession' score level evidence' =
     (if \<not> score \<le> 100 then Inl (Revert ''Score must be between 0-100'')
      else if \<not> level \<le> 10 then Inl (Revert ''Level must be between 1-10'')
      else if \<not> 0 < length profession' then Inl (Revert ''Profession required'')
      else if \<not> 0 < length evidence' then Inl (Revert ''Evidence required'')
      else
        let encScore = FHE_asEuint64 X score;
            encLevel = FHE_asEuint8 X level;
            s1 = s\<lparr>certificationRequests := (certificationRequests s)(nextRequestId s :=
                    \<lparr>applicant = msg_sender e,
                     r_profession = profession',
                     r_encryptedScore = encScore,
                     r_encryptedLevel = encLevel,
                     isProcessed = False,
                     isApproved = False,
                     requestTime = block_timestamp e,
                     evidence = evidence'\<rparr>)\<rparr>;
            effs = [FHE_allowThis encScore, FHE_allowThis encLevel,
                    FHE_allow encScore (msg_sender e), FHE_allow encLevel (msg_sender e),
                    Emit (CertificationRequested (nextRequestId s1) (msg_sender e) profession')]
        in case checked_add (nextRequestId s1) 1 of
             Inl err \<Rightarrow> Inl err
           | Inr n \<Rightarrow> Inr (s1\<lparr>nextRequestId := n\<rparr>, effs))"

text \<open>The private function \<^verbatim>\<open>_issueCertificate\<close>.\<close>

definition issueCertificate ::
  "prims \<Rightarrow> env \<Rightarrow> storage \<Rightarrow> address \<Rightarrow> string \<Rightarrow> euint64 \<Rightarrow> euint8 \<Rightarrow> string
     \<Rightarrow> (storage \<times> effect list) result" where
  "issueCertificate X e s holder' profession' encScore encLevel issuer' =
     (let credentialHash =
            keccak256_packed X holder' profession' (block_timestamp e) (nextCertificateId s)
      in case checked_add (block_timestamp e) days365 of
           Inl err \<Rightarrow> Inl err
         | Inr expiry \<Rightarrow>
             let s1 = s\<lparr>certificates := (certificates s)(nextCertificateId s :=
                         \<lparr>holder = holder',
                          profession = profession',
                          encryptedScore = encScore,
                          encryptedLevel = encLevel,
                          isValid = True,
                          issueDate = block_timestamp e,
                          expiryDate = expiry,
                          issuer = issuer',
                          hashedCredentials = credentialHash\<rparr>)\<rparr>;
                 s2 = s1\<lparr>holderCertificates := (holderCertificates s1)(holder' :=
                          holderCertificates s1 holder' @ [nextCertificateId s1])\<rparr>;
                 effs = [FHE_allow encScore holder', FHE_allow encLevel holder',
                         Emit (CertificateIssued (nextCertificateId s2) holder' profession')]
             in case checked_add (nextCertificateId s2) 1 of
                  Inl err \<Rightarrow> Inl err
                | Inr n \<Rightarrow> Inr (s2\<lparr>nextCertificateId := n\<rparr>, effs))"

definition processCertificationRequest ::
  "prims \<Rightarrow> env \<Rightarrow> storage \<Rightarrow> uint256 \<Rightarrow> string \<Rightarrow> (storage \<times> effect list) result" where
  "processCertificationRequest X e s requestId issuerName =
     onlyAuthorizedIssuer e s
       (if \<not> (0 < requestId \<and> requestId < nextRequestId s)
          then Inl (Revert ''Invalid request ID'')
        else if isProcessed (certificationRequests s requestId)
          then Inl (Revert ''Request already processed'')
        else
          let s1 = s\<lparr>certificationRequests := (certificationRequests s)(requestId :=
                      (certificationRequests s requestId)\<lparr>isProcessed := True\<rparr>)\<rparr>;
              s2 = s1\<lparr>certificationRequests := (certificationRequests s1)(requestId :=
                      (certificationRequests s1 requestId)\<lparr>isApproved := True\<rparr>)\<rparr>;
              request = certificationRequests s2 requestId
          in if isApproved request then
               (case issueCertificate X e s2 (applicant request) (r_profession request)
                       (r_encryptedScore request) (r_encryptedLevel request) issuerName of
                  Inl err \<Rightarrow> Inl err
                | Inr (s3, effs) \<Rightarrow>
                    (case checked_sub (nextCertificateId s3) 1 of
                       Inl err \<Rightarrow> Inl err
                     | Inr certificateId \<Rightarrow>
                         Inr (s3, effs @ [Emit (CertificationApproved requestId certificateId)])))
             else Inr (s2, [Emit (CertificationRejected requestId ''Requirements not met'')]))"

subsection \<open>Revocation and extension\<close>

definition revokeCertificate ::
  "env \<Rightarrow> storage \<Rightarrow> uint256 \<Rightarrow> string \<Rightarrow> (storage \<times> effect list) result" where
  "revokeCertificate e s certificateId reason =
     onlyAuthorizedIssuer e s
       (validCertificate e s certificateId
          (Inr (s\<lparr>certificates := (certificates s)(certificateId :=
                    (certificates s certificateId)\<lparr>isValid := False\<rparr>)\<rparr>,
                [Emit (CertificateRevoked certificateId reason)])))"

definition extendCertificateValidity ::
  "env \<Rightarrow> storage \<Rightarrow> uint256 \<Rightarrow> uint256 \<Rightarrow> (storage \<times> effect list) result" where
  "extendCertificateValidity e s certificateId additionalDays =
     onlyAuthorizedIssuer e s
       (validCertificate e s certificateId
          (case checked_mul additionalDays one_day of
             Inl err \<Rightarrow> Inl err
           | Inr delta \<Rightarrow>
               (case checked_add (expiryDate (certificates s certificateId)) delta of
                  Inl err \<Rightarrow> Inl err
                | Inr expiry \<Rightarrow>
                    Inr (s\<lparr>certificates := (certificates s)(certificateId :=
                            (certificates s certificateId)\<lparr>expiryDate := expiry\<rparr>)\<rparr>,
                         []))))"

subsection \<open>View functions\<close>

text \<open>A \<^verbatim>\<open>view\<close> function reads storage and returns a value; it has no storage to return.\<close>

definition verifyCertificate ::
  "env \<Rightarrow> storage \<Rightarrow> uint256
     \<Rightarrow> (address \<times> string \<times> bool \<times> uint256 \<times> uint256 \<times> string \<times> bytes32) result" where
  "verifyCertificate e s certificateId =
     validCertificate e s certificateId
       (let cert = certificates s certificateId
        in Inr (holder cert, profession cert, isValid cert, issueDate cert, expiryDate cert,
                issuer cert, hashedCredentials cert))"

definition getHolderCertificates :: "storage \<Rightarrow> address \<Rightarrow> uint256 list" where
  "getHolderCertificates s holder' = holderCertificates s holder'"

definition getCertificateCount :: "storage \<Rightarrow> uint256 result" where
  "getCertificateCount s = checked_sub (nextCertificateId s) 1"

definition getRequestCount :: "storage \<Rightarrow> uint256 result" where
  "getRequestCount s = checked_sub (nextRequestId s) 1"

definition getProfessionRequirements :: "storage \<Rightarrow> string \<Rightarrow> uint256 \<times> uint8" where
  "getProfessionRequirements s profession' =
     (minimumScoreRequirement s profession', minimumLevelRequirement s profession')"

definition getEncryptedScore :: "env \<Rightarrow> storage \<Rightarrow> uint256 \<Rightarrow> euint64 result" where
  "getEncryptedScore e s certificateId =
     validCertificate e s certificateId
       (if \<not> (msg_sender e = holder (certificates s certificateId) \<or>
               authorizedIssuers s (msg_sender e) \<or>
               msg_sender e = owner s)
          then Inl (Revert ''Not authorized to view score'')
        else Inr (encryptedScore (certificates s certificateId)))"

definition getEncryptedLevel :: "env \<Rightarrow> storage \<Rightarrow> uint256 \<Rightarrow> euint8 result" where
  "getEncryptedLevel e s certificateId =
     validCertificate e s certificateId
       (if \<not> (msg_sender e = holder (certificates s certificateId) \<or>
               authorizedIssuers s (msg_sender e) \<or>
               msg_sender e = owner s)
          then Inl (Revert ''Not authorized to view level'')
        else Inr (encryptedLevel (certificates s certificateId)))"

subsection \<open>Transactions\<close>

text \<open>
  A transaction is atomic: after a revert the storage is the one before the call and
  nothing was emitted.
\<close>

definition commit :: "storage \<Rightarrow> (storage \<times> effect list) result \<Rightarrow> storage" where
  "commit s r = (case r of Inl _ \<Rightarrow> s | Inr (s', _) \<Rightarrow> s')"

definition emitted :: "(storage \<times> effect list) result \<Rightarrow> effect list" where
  "emitted r = (case r of Inl _ \<Rightarrow> [] | Inr (_, effs) \<Rightarrow> effs)"

text \<open>The external functions that are not \<^verbatim>\<open>view\<close>, with their arguments.\<close>

datatype call =
    AuthorizeIssuer address string
  | RevokeIssuer address
  | SetProfessionRequirements string uint256 uint8
  | RequestCertification string uint64 uint8 string
  | ProcessCertificationRequest uint256 string
  | RevokeCertificate uint256 string
  | ExtendCertificateValidity uint256 uint256
  | EmergencyPause

fun dispatch :: "prims \<Rightarrow> env \<Rightarrow> call \<Rightarrow> storage \<Rightarrow> (storage \<times> effect list) result" where
  "dispatch X e (AuthorizeIssuer a org) s = authorizeIssuer e s a org"
| "dispatch X e (RevokeIssuer a) s = revokeIssuer e s a"
| "dispatch X e (SetProfessionRequirements p ms ml) s = setProfessionRequirements e s p ms ml"
| "dispatch X e (RequestCertification p sc lv ev) s = requestCertification X e s p sc lv ev"
| "dispatch X e (ProcessCertificationRequest rid nm) s = processCertificationRequest X e s rid nm"
| "dispatch X e (RevokeCertificate cid reason) s = revokeCertificate e s cid reason"
| "dispatch X e (ExtendCertificateValidity cid d) s = extendCertificateValidity e s cid d"
| "dispatch X e EmergencyPause s = emergencyPause e s"

definition exec :: "prims \<Rightarrow> env \<Rightarrow> call \<Rightarrow> storage \<Rightarrow> storage" where
  "exec X e c s = commit s (dispatch X e c s)"

text \<open>A sequence of transactions, each with its own sender and block time.\<close>

fun run :: "prims \<Rightarrow> storage \<Rightarrow> (env \<times> call) list \<Rightarrow> storage" where
  "run X s [] = s"
| "run X s ((e, c) # tr) = run X (exec X e c s) tr"

fun run_effects :: "prims \<Rightarrow> storage \<Rightarrow> (env \<times> call) list \<Rightarrow> effect list" where
  "run_effects X s [] = []"
| "run_effects X s ((e, c) # tr) =
     emitted (dispatch X e c s) @ run_effects X (exec X e c s) tr"

subsection \<open>Identifiers read from the log\<close>

text \<open>
  No function returns the id it assigns: a request id is announced by
  \<^verbatim>\<open>CertificationRequested\<close>, a certificate id by \<^verbatim>\<open>CertificateIssued\<close>.
\<close>

fun requestIds :: "effect list \<Rightarrow> uint256 list" where
  "requestIds [] = []"
| "requestIds (Emit (CertificationRequested requestId a p) # effs) = requestId # requestIds effs"
| "requestIds (_ # effs) = requestIds effs"

fun certificateIds :: "effect list \<Rightarrow> uint256 list" where
  "certificateIds [] = []"
| "certificateIds (Emit (CertificateIssued certificateId a p) # effs) =
     certificateId # certificateIds effs"
| "certificateIds (_ # effs) = certificateIds effs"

subsection \<open>The scenario of the specification\<close>

text \<open>
  Account 1 deploys the contract; account 2 submits
  (\<open>''Software Engineer''\<close>, 80, 4, \<open>''portfolio-link''\<close>); the owner processes request 1
  as \<open>''Acme Certifiers''\<close>. The primitives are instantiated with simple functions.
\<close>

definition scenario_prims :: prims where
  "scenario_prims =
     \<lparr>keccak256_packed = (\<lambda>h p t i. t + i), FHE_asEuint64 = ucast, FHE_asEuint8 = ucast\<rparr>"

definition deployed :: storage where
  "deployed = constructor \<lparr>msg_sender = 1, block_timestamp = 1000\<rparr>"

definition scenario_request :: "env \<times> call" where
  "scenario_request =
     (\<lparr>msg_sender = 2, block_timestamp = 2000\<rparr>,
      RequestCertification ''Software Engineer'' 80 4 ''portfolio-link'')"

definition scenario_process :: "env \<times> call" where
  "scenario_process =
     (\<lparr>msg_sender = 1, block_timestamp = 3000\<rparr>,
      ProcessCertificationRequest 1 ''Acme Certifiers'')"

definition requested :: storage where
  "requested = run scenario_prims deployed [scenario_request]"

definition certified :: storage where
  "certified = run scenario_prims deployed [scenario_request, scenario_process]"

definition scenario_revoke :: "env \<times> call" where
  "scenario_revoke =
     (\<lparr>msg_sender = 1, block_timestamp = 4000\<rparr>, RevokeCertificate 1 ''withdrawn'')"

definition scenario_extend :: "env \<times> call" where
  "scenario_extend =
     (\<lparr>msg_sender = 1, block_timestamp = 5000\<rparr>, ExtendCertificateValidity 1 30)"

definition scenario_process_second :: "env \<times> call" where
  "scenario_process_second =
     (\<lparr>msg_sender = 1, block_timestamp = 6000\<rparr>,
      ProcessCertificationRequest 2 ''Acme Certifiers'')"

section \<open>Properties\<close>

subsection \<open>Arithmetic and the effect of each call\<close>

lemma unat_succ_no_overflow:
  fixes a :: uint256
  assumes "unat a + 1 < 2 ^ 256"
  shows "unat (a + 1) = unat a + 1" and "a < a + 1" and "a + 1 \<noteq> 0"
proof -
  show u: "unat (a + 1) = unat a + 1"
    using assms by (simp add: unat_word_ariths)
  then show "a < a + 1"
    by (simp add: word_less_nat_alt)
  from u show "a + 1 \<noteq> 0"
    by (metis Suc_eq_plus1 nat.distinct(1) unat_0)
qed

lemma issueCertificate_eq:
  "issueCertificate X e s h p es el nm =
     (if unat (block_timestamp e) + unat days365 < 2 ^ 256 \<and>
         unat (nextCertificateId s) + 1 < 2 ^ 256
      then Inr (s\<lparr>certificates := (certificates s)(nextCertificateId s :=
               \<lparr>holder = h, profession = p, encryptedScore = es, encryptedLevel = el,
                isValid = True, issueDate = block_timestamp e,
                expiryDate = block_timestamp e + days365, issuer = nm,
                hashedCredentials =
                  keccak256_packed X h p (block_timestamp e) (nextCertificateId s)\<rparr>),
             holderCertificates := (holderCertificates s)(h :=
               holderCertificates s h @ [nextCertificateId s]),
             nextCertificateId := nextCertificateId s + 1\<rparr>,
            [FHE_allow es h, FHE_allow el h,
             Emit (CertificateIssued (nextCertificateId s) h p)])
      else Inl Panic_overflow)"
  by (simp add: issueCertificate_def Let_def checked_add_def)

lemma processCertificationRequest_eq:
  "processCertificationRequest X e s rid nm =
     (if \<not> (authorizedIssuers s (msg_sender e) \<or> msg_sender e = owner s)
        then Inl (Revert ''Not authorized issuer'')
      else if \<not> (0 < rid \<and> rid < nextRequestId s)
        then Inl (Revert ''Invalid request ID'')
      else if isProcessed (certificationRequests s rid)
        then Inl (Revert ''Request already processed'')
      else if unat (block_timestamp e) + unat days365 < 2 ^ 256 \<and>
              unat (nextCertificateId s) + 1 < 2 ^ 256
        then Inr (s\<lparr>certificationRequests := (certificationRequests s)(rid :=
                      (certificationRequests s rid)\<lparr>isProcessed := True, isApproved := True\<rparr>),
                    certificates := (certificates s)(nextCertificateId s :=
                      \<lparr>holder = applicant (certificationRequests s rid),
                       profession = r_profession (certificationRequests s rid),
                       encryptedScore = r_encryptedScore (certificationRequests s rid),
                       encryptedLevel = r_encryptedLevel (certificationRequests s rid),
                       isValid = True,
                       issueDate = block_timestamp e,
                       expiryDate = block_timestamp e + days365,
                       issuer = nm,
                       hashedCredentials =
                         keccak256_packed X (applicant (certificationRequests s rid))
                           (r_profession (certificationRequests s rid))
                           (block_timestamp e) (nextCertificateId s)\<rparr>),
                    holderCertificates := (holderCertificates s)
                      (applicant (certificationRequests s rid) :=
                         holderCertificates s (applicant (certificationRequests s rid))
                           @ [nextCertificateId s]),
                    nextCertificateId := nextCertificateId s + 1\<rparr>,
                  [FHE_allow (r_encryptedScore (certificationRequests s rid))
                     (applicant (certificationRequests s rid)),
                   FHE_allow (r_encryptedLevel (certificationRequests s rid))
                     (applicant (certificationRequests s rid)),
                   Emit (CertificateIssued (nextCertificateId s)
                     (applicant (certificationRequests s rid))
                     (r_profession (certificationRequests s rid))),
                   Emit (CertificationApproved rid (nextCertificateId s))])
      else Inl Panic_overflow)"
proof (cases "unat (nextCertificateId s) + 1 < 2 ^ 256")
  case True
  then have "1 \<le> nextCertificateId s + 1"
    using unat_succ_no_overflow(3)[OF True] by (simp add: word_le_nat_alt unat_succ_no_overflow(1))
  then show ?thesis
    by (simp add: processCertificationRequest_def onlyAuthorizedIssuer_def Let_def
        issueCertificate_eq checked_sub_def)
next
  case False
  then show ?thesis
    by (simp add: processCertificationRequest_def onlyAuthorizedIssuer_def Let_def
        issueCertificate_eq)
qed

lemmas call_defs =
  authorizeIssuer_def revokeIssuer_def setProfessionRequirements_def emergencyPause_def
  requestCertification_def revokeCertificate_def extendCertificateValidity_def
  onlyOwner_def onlyAuthorizedIssuer_def validCertificate_def Let_def
  checked_add_def checked_mul_def processCertificationRequest_eq

lemma succ_le:
  fixes a :: uint256
  shows "unat a + 1 < 2 ^ 256 \<Longrightarrow> a \<le> a + 1"
  using unat_succ_no_overflow(2) [of a] by simp

lemma less_succ:
  fixes a b :: uint256
  shows "unat a + 1 < 2 ^ 256 \<Longrightarrow> b < a \<Longrightarrow> b < a + 1"
  using unat_succ_no_overflow(2) [of a] by simp

lemma exec_counters:
  "nextCertificateId s \<le> nextCertificateId (exec X e c s) \<and>
   nextRequestId s \<le> nextRequestId (exec X e c s)"
  by (cases c) (auto simp: exec_def commit_def call_defs succ_le split: sum.splits)

lemma run_counters:
  "nextCertificateId s \<le> nextCertificateId (run X s tr) \<and>
   nextRequestId s \<le> nextRequestId (run X s tr)"
proof (induction tr arbitrary: s)
  case Nil
  show ?case by simp
next
  case (Cons a tr)
  obtain e c where a: "a = (e, c)" by (cases a)
  from Cons [of "exec X e c s"] exec_counters [of s X e c] show ?case
    unfolding a by (auto intro: order_trans)
qed

lemma exec_stays_invalid:
  assumes "cid < nextCertificateId s" and "\<not> isValid (certificates s cid)"
  shows "\<not> isValid (certificates (exec X e c s) cid)"
  using assms
  by (cases c) (auto simp: exec_def commit_def call_defs split: sum.splits)

lemma run_stays_invalid:
  assumes "cid < nextCertificateId s" and "\<not> isValid (certificates s cid)"
  shows "\<not> isValid (certificates (run X s tr) cid)"
  using assms
proof (induction tr arbitrary: s)
  case Nil
  then show ?case by simp
next
  case (Cons a tr)
  obtain e c where a: "a = (e, c)" by (cases a)
  have "cid < nextCertificateId (exec X e c s)"
    using Cons.prems(1) exec_counters [of s X e c] by auto
  with Cons.IH [of "exec X e c s"] exec_stays_invalid [OF Cons.prems, of X e c]
  show ?case unfolding a by simp
qed

lemma exec_valid_in_range:
  assumes "nextCertificateId s \<noteq> 0"
    and "\<forall>cid. isValid (certificates s cid) \<longrightarrow> 0 < cid \<and> cid < nextCertificateId s"
  shows "nextCertificateId (exec X e c s) \<noteq> 0 \<and>
    (\<forall>cid. isValid (certificates (exec X e c s) cid)
       \<longrightarrow> 0 < cid \<and> cid < nextCertificateId (exec X e c s))"
  using assms
  by (cases c)
    (auto simp: exec_def commit_def call_defs unat_succ_no_overflow less_succ word_neq_0_conv
      split: sum.splits)

lemma reachable_valid_in_range:
  "nextCertificateId (run X (constructor e0) tr) \<noteq> 0 \<and>
    (\<forall>cid. isValid (certificates (run X (constructor e0) tr) cid)
       \<longrightarrow> 0 < cid \<and> cid < nextCertificateId (run X (constructor e0) tr))"
proof -
  have "nextCertificateId s \<noteq> 0 \<Longrightarrow>
        \<forall>cid. isValid (certificates s cid) \<longrightarrow> 0 < cid \<and> cid < nextCertificateId s \<Longrightarrow>
        nextCertificateId (run X s tr) \<noteq> 0 \<and>
        (\<forall>cid. isValid (certificates (run X s tr) cid)
           \<longrightarrow> 0 < cid \<and> cid < nextCertificateId (run X s tr))" for s
  proof (induction tr arbitrary: s)
    case Nil
    then show ?case by simp
  next
    case (Cons a tr)
    obtain e c where a: "a = (e, c)" by (cases a)
    from exec_valid_in_range [OF Cons.prems, of X e c] Cons.IH [of "exec X e c s"]
    show ?case unfolding a by simp
  qed
  moreover have "nextCertificateId (constructor e0) \<noteq> 0"
    by (simp add: constructor_def)
  moreover have "\<forall>cid. isValid (certificates (constructor e0) cid)
      \<longrightarrow> 0 < cid \<and> cid < nextCertificateId (constructor e0)"
    by (simp add: constructor_def zero_certificate_def)
  ultimately show ?thesis by blast
qed

lemma exec_fresh_slots:
  assumes "nextCertificateId s \<noteq> 0" and "nextRequestId s \<noteq> 0"
    and "\<forall>cid. nextCertificateId s \<le> cid \<longrightarrow> certificates s cid = zero_certificate"
    and "\<forall>rid. nextRequestId s \<le> rid \<longrightarrow> certificationRequests s rid = zero_request"
  shows "nextCertificateId (exec X e c s) \<noteq> 0 \<and> nextRequestId (exec X e c s) \<noteq> 0 \<and>
    (\<forall>cid. nextCertificateId (exec X e c s) \<le> cid
       \<longrightarrow> certificates (exec X e c s) cid = zero_certificate) \<and>
    (\<forall>rid. nextRequestId (exec X e c s) \<le> rid
       \<longrightarrow> certificationRequests (exec X e c s) rid = zero_request)"
proof -
  have up: "a + 1 \<le> b \<Longrightarrow> unat a + 1 < 2 ^ 256 \<Longrightarrow> a \<le> b \<and> b \<noteq> a" for a b :: uint256
    using unat_succ_no_overflow(2) [of a] by auto
  have inval: "isValid (certificates s cid) \<Longrightarrow> \<not> nextCertificateId s \<le> cid" for cid
    using assms(3) by (auto simp: zero_certificate_def)
  show ?thesis
    using assms
    by (cases c)
      (auto simp: exec_def commit_def call_defs unat_succ_no_overflow(3)
        dest: up inval split: sum.splits)
qed

lemma reachable_fresh_slots:
  "nextCertificateId (run X (constructor e0) tr) \<noteq> 0 \<and>
   nextRequestId (run X (constructor e0) tr) \<noteq> 0 \<and>
   (\<forall>cid. nextCertificateId (run X (constructor e0) tr) \<le> cid
      \<longrightarrow> certificates (run X (constructor e0) tr) cid = zero_certificate) \<and>
   (\<forall>rid. nextRequestId (run X (constructor e0) tr) \<le> rid
      \<longrightarrow> certificationRequests (run X (constructor e0) tr) rid = zero_request)"
proof -
  have "nextCertificateId s \<noteq> 0 \<Longrightarrow> nextRequestId s \<noteq> 0 \<Longrightarrow>
        \<forall>cid. nextCertificateId s \<le> cid \<longrightarrow> certificates s cid = zero_certificate \<Longrightarrow>
        \<forall>rid. nextRequestId s \<le> rid \<longrightarrow> certificationRequests s rid = zero_request \<Longrightarrow>
        nextCertificateId (run X s tr) \<noteq> 0 \<and> nextRequestId (run X s tr) \<noteq> 0 \<and>
        (\<forall>cid. nextCertificateId (run X s tr) \<le> cid
           \<longrightarrow> certificates (run X s tr) cid = zero_certificate) \<and>
        (\<forall>rid. nextRequestId (run X s tr) \<le> rid
           \<longrightarrow> certificationRequests (run X s tr) rid = zero_request)" for s
  proof (induction tr arbitrary: s)
    case Nil
    then show ?case by simp
  next
    case (Cons a tr)
    obtain e c where a: "a = (e, c)" by (cases a)
    from exec_fresh_slots [OF Cons.prems, of X e c] Cons.IH [of "exec X e c s"]
    show ?case unfolding a by simp
  qed
  then show ?thesis
    by (simp add: constructor_def)
qed


lemma exec_processed_frozen:
  assumes "rid < nextRequestId s" and "isProcessed (certificationRequests s rid)"
  shows "certificationRequests (exec X e c s) rid = certificationRequests s rid"
  using assms
  by (cases c) (auto simp: exec_def commit_def call_defs split: sum.splits)

lemma run_processed_frozen:
  assumes "rid < nextRequestId s" and "isProcessed (certificationRequests s rid)"
  shows "certificationRequests (run X s tr) rid = certificationRequests s rid"
  using assms
proof (induction tr arbitrary: s)
  case Nil
  then show ?case by simp
next
  case (Cons a tr)
  obtain e c where a: "a = (e, c)" by (cases a)
  have f: "certificationRequests (exec X e c s) rid = certificationRequests s rid"
    by (rule exec_processed_frozen [OF Cons.prems])
  have "rid < nextRequestId (exec X e c s)"
    using Cons.prems(1) exec_counters [of s X e c] by auto
  from Cons.IH [OF this] f Cons.prems(2) show ?case unfolding a by simp
qed

lemma run_append: "run X s (tr1 @ tr2) = run X (run X s tr1) tr2"
  by (induction tr1 arbitrary: s) auto

subsection \<open>The scenario, evaluated\<close>

lemma requested_eq:
  "requested = deployed\<lparr>certificationRequests := (certificationRequests deployed)(1 :=
       \<lparr>applicant = 2, r_profession = ''Software Engineer'', r_encryptedScore = 80,
        r_encryptedLevel = 4, isProcessed = False, isApproved = False, requestTime = 2000,
        evidence = ''portfolio-link''\<rparr>), nextRequestId := 2\<rparr>"
  by (simp add: requested_def deployed_def scenario_request_def scenario_prims_def exec_def commit_def
     requestCertification_def constructor_def Let_def checked_add_def)

lemma deployed_simps:
  "owner deployed = 1" "nextCertificateId deployed = 1" "nextRequestId deployed = 1"
  "certificates deployed = (\<lambda>_. zero_certificate)"
  "holderCertificates deployed = (\<lambda>_. [])"
  "certificationRequests deployed = (\<lambda>_. zero_request)"
  "authorizedIssuers deployed = (\<lambda>_. False)"
  by (simp_all add: deployed_def constructor_def)

lemma certified_eq:
  "certified = requested\<lparr>certificationRequests := (certificationRequests requested)(1 :=
       \<lparr>applicant = 2, r_profession = ''Software Engineer'', r_encryptedScore = 80,
        r_encryptedLevel = 4, isProcessed = True, isApproved = True, requestTime = 2000,
        evidence = ''portfolio-link''\<rparr>),
      certificates := (certificates requested)(1 :=
        \<lparr>holder = 2, profession = ''Software Engineer'', encryptedScore = 80,
         encryptedLevel = 4, isValid = True, issueDate = 3000, expiryDate = 31539000,
         issuer = ''Acme Certifiers'', hashedCredentials = 3001\<rparr>),
      holderCertificates := (holderCertificates requested)(2 := [1]),
      nextCertificateId := 2\<rparr>"
proof -
  have "certified = exec scenario_prims (fst scenario_process) (snd scenario_process) requested"
    by (simp add: certified_def requested_def scenario_request_def scenario_process_def)
  then show ?thesis
    by (simp add: scenario_process_def exec_def commit_def processCertificationRequest_eq
      requested_eq deployed_simps days365_def scenario_prims_def)
qed


lemma requested_simps:
  "owner requested = 1" "nextCertificateId requested = 1" "nextRequestId requested = 2"
  "certificates requested = (\<lambda>_. zero_certificate)"
  "holderCertificates requested = (\<lambda>_. [])"
  "certificationRequests requested 1 =
     \<lparr>applicant = 2, r_profession = ''Software Engineer'', r_encryptedScore = 80,
      r_encryptedLevel = 4, isProcessed = False, isApproved = False, requestTime = 2000,
      evidence = ''portfolio-link''\<rparr>"
  "authorizedIssuers requested = (\<lambda>_. False)"
  by (simp_all add: requested_eq deployed_simps)

lemma certified_simps:
  "owner certified = 1" "nextCertificateId certified = 2" "nextRequestId certified = 2"
  "certificates certified 1 =
     \<lparr>holder = 2, profession = ''Software Engineer'', encryptedScore = 80,
      encryptedLevel = 4, isValid = True, issueDate = 3000, expiryDate = 31539000,
      issuer = ''Acme Certifiers'', hashedCredentials = 3001\<rparr>"
  "holderCertificates certified 2 = [1]"
  "certificationRequests certified 1 =
     \<lparr>applicant = 2, r_profession = ''Software Engineer'', r_encryptedScore = 80,
      r_encryptedLevel = 4, isProcessed = True, isApproved = True, requestTime = 2000,
      evidence = ''portfolio-link''\<rparr>"
  "authorizedIssuers certified = (\<lambda>_. False)"
  by (simp_all add: certified_eq requested_simps)

lemma revoked_cert:
  "certificates (run scenario_prims certified [scenario_revoke]) 1 =
     (certificates certified 1)\<lparr>isValid := False\<rparr>"
  by (simp add: scenario_revoke_def exec_def commit_def revokeCertificate_def
      onlyAuthorizedIssuer_def validCertificate_def certified_simps)

lemma two_rounds:
  "run_effects scenario_prims deployed
     [scenario_request, scenario_process, scenario_request, scenario_process_second] =
   [FHE_allowThis 80, FHE_allowThis 4, FHE_allow 80 2, FHE_allow 4 2,
    Emit (CertificationRequested 1 2 ''Software Engineer''),
    FHE_allow 80 2, FHE_allow 4 2,
    Emit (CertificateIssued 1 2 ''Software Engineer''),
    Emit (CertificationApproved 1 1),
    FHE_allowThis 80, FHE_allowThis 4, FHE_allow 80 2, FHE_allow 4 2,
    Emit (CertificationRequested 2 2 ''Software Engineer''),
    FHE_allow 80 2, FHE_allow 4 2,
    Emit (CertificateIssued 2 2 ''Software Engineer''),
    Emit (CertificationApproved 2 2)]"
  by (simp add: scenario_request_def scenario_process_def scenario_process_second_def
      exec_def commit_def emitted_def requestCertification_def processCertificationRequest_eq
      checked_add_def Let_def deployed_simps scenario_prims_def days365_def)

lemma certified_reached:
  "certified = run scenario_prims (constructor \<lparr>msg_sender = 1, block_timestamp = 1000\<rparr>)
      [scenario_request, scenario_process]"
  by (simp add: certified_def deployed_def)

lemma success_commit: "\<not> isl r \<Longrightarrow> r = Inr (commit s r, emitted r)"
  by (cases r) (auto simp: commit_def emitted_def)

lemma requested_reached:
  "requested = run scenario_prims (constructor \<lparr>msg_sender = 1, block_timestamp = 1000\<rparr>)
      [scenario_request]"
  by (simp add: requested_def deployed_def)

subsection \<open>Processing a request\<close>

text \<open>
  C1. A call of \<^verbatim>\<open>processCertificationRequest\<close> by a flagged issuer or the owner on an
  existing request (\<open>0 < requestId < nextRequestId\<close>) that is still pending succeeds:
  the request is marked processed and approved, a certificate is written under the id
  \<open>nextCertificateId\<close> with the request's holder, profession and the two encrypted
  handles, \<open>isValid = True\<close>, \<open>issueDate\<close> the block time and \<open>expiryDate\<close> 365 days
  later; the id is appended to the applicant's \<open>holderCertificates\<close>; the events are
  \<^verbatim>\<open>CertificateIssued\<close> and \<^verbatim>\<open>CertificationApproved(requestId, certificateId)\<close> with the
  id just issued, which is also the new certificate count; \<^verbatim>\<open>CertificationRejected\<close> is
  never emitted and no \<^verbatim>\<open>require\<close> fails. Here \<open>fits\<close> says that the two checked
  \<^verbatim>\<open>uint256\<close> additions of \<^verbatim>\<open>_issueCertificate\<close>, \<^verbatim>\<open>block.timestamp + 365 days\<close> and
  \<^verbatim>\<open>nextCertificateId++\<close>, stay below \<open>2 ^ 256\<close>; a call at a block time or a counter
  beyond that reverts on the overflow and changes nothing.
\<close>

theorem processCertificationRequest_approves:
  assumes "authorizedIssuers s (msg_sender e) \<or> msg_sender e = owner s"
    and "0 < requestId" and "requestId < nextRequestId s"
    and "\<not> isProcessed (certificationRequests s requestId)"
  shows
   "let r = processCertificationRequest X e s requestId issuerName;
        s' = commit s r;
        request = certificationRequests s requestId;
        certificateId = nextCertificateId s;
        fits = (unat (block_timestamp e) + 31536000 < 2 ^ 256 \<and>
                unat (nextCertificateId s) + 1 < 2 ^ 256)
    in (fits \<longrightarrow>
          \<not> isl r \<and>
          certificationRequests s' requestId =
            request\<lparr>isProcessed := True, isApproved := True\<rparr> \<and>
          certificates s' certificateId =
            \<lparr>holder = applicant request,
             profession = r_profession request,
             encryptedScore = r_encryptedScore request,
             encryptedLevel = r_encryptedLevel request,
             isValid = True,
             issueDate = block_timestamp e,
             expiryDate = block_timestamp e + days365,
             issuer = issuerName,
             hashedCredentials =
               keccak256_packed X (applicant request) (r_profession request)
                 (block_timestamp e) certificateId\<rparr> \<and>
          holderCertificates s' (applicant request) =
            holderCertificates s (applicant request) @ [certificateId] \<and>
          unat (nextCertificateId s') = unat certificateId + 1 \<and>
          getCertificateCount s' = Inr certificateId \<and>
          emitted r =
            [FHE_allow (r_encryptedScore request) (applicant request),
             FHE_allow (r_encryptedLevel request) (applicant request),
             Emit (CertificateIssued certificateId (applicant request) (r_profession request)),
             Emit (CertificationApproved requestId certificateId)]) \<and>
       (\<not> fits \<longrightarrow> r = Inl Panic_overflow \<and> s' = s) \<and>
       (\<forall>anyId reason. Emit (CertificationRejected anyId reason) \<notin> set (emitted r)) \<and>
       (\<forall>message. r \<noteq> Inl (Revert message))"
proof (cases "unat (nextCertificateId s) + 1 < 2 ^ 256")
  case True
  have "unat (nextCertificateId s + 1) = unat (nextCertificateId s) + 1"
    by (rule unat_succ_no_overflow(1) [OF True])
  moreover have "1 \<le> nextCertificateId s + 1"
    using calculation by (simp add: word_le_nat_alt)
  ultimately show ?thesis
    using assms
    by (simp add: processCertificationRequest_eq days365_def getCertificateCount_def
        checked_sub_def commit_def emitted_def)
next
  case False
  then show ?thesis
    using assms
    by (simp add: processCertificationRequest_eq days365_def commit_def emitted_def)
qed

theorem processCertificationRequest_approves_witness:
  "(authorizedIssuers requested 1 \<or> 1 = owner requested) \<and>
   (0::uint256) < 1 \<and> 1 < nextRequestId requested \<and>
   \<not> isProcessed (certificationRequests requested 1) \<and>
   unat (3000::uint256) + 31536000 < (2::nat) ^ 256 \<and>
   unat (nextCertificateId requested) + 1 < (2::nat) ^ 256 \<and>
   \<not> isl (processCertificationRequest scenario_prims
            \<lparr>msg_sender = 1, block_timestamp = 3000\<rparr> requested 1 ''Acme Certifiers'') \<and>
   certificates
     (commit requested (processCertificationRequest scenario_prims
        \<lparr>msg_sender = 1, block_timestamp = 3000\<rparr> requested 1 ''Acme Certifiers'')) 1 =
     \<lparr>holder = 2, profession = ''Software Engineer'', encryptedScore = 80,
      encryptedLevel = 4, isValid = True, issueDate = 3000, expiryDate = 31539000,
      issuer = ''Acme Certifiers'', hashedCredentials = 3001\<rparr> \<and>
   holderCertificates
     (commit requested (processCertificationRequest scenario_prims
        \<lparr>msg_sender = 1, block_timestamp = 3000\<rparr> requested 1 ''Acme Certifiers'')) 2 = [1] \<and>
   emitted (processCertificationRequest scenario_prims
      \<lparr>msg_sender = 1, block_timestamp = 3000\<rparr> requested 1 ''Acme Certifiers'') =
     [FHE_allow 80 2, FHE_allow 4 2,
      Emit (CertificateIssued 1 2 ''Software Engineer''),
      Emit (CertificationApproved 1 1)]"
  using processCertificationRequest_approves
    [of requested "\<lparr>msg_sender = 1, block_timestamp = 3000\<rparr>" 1 scenario_prims
      "''Acme Certifiers''"]
  by (simp add: requested_simps scenario_prims_def days365_def Let_def)

text \<open>
  C2. After a successful \<^verbatim>\<open>processCertificationRequest\<close> on a request id, and after any
  further transactions \<open>tr\<close>, every call of \<^verbatim>\<open>processCertificationRequest\<close> on that id
  reverts, whoever calls: a caller without the issuer role is stopped by the modifier, an
  issuer or the owner by \<open>''Request already processed''\<close>. The storage is left as it was,
  nothing is emitted, and the request is still the one the first processing wrote.
\<close>

theorem processed_once:
  assumes "processCertificationRequest X e s requestId issuerName = Inr (s', effs)"
  shows
   "let s'' = run X s' tr;
        r = processCertificationRequest X e' s'' requestId issuerName'
    in isl r \<and>
       commit s'' r = s'' \<and>
       emitted r = [] \<and>
       ((authorizedIssuers s'' (msg_sender e') \<or> msg_sender e' = owner s'')
          = (r = Inl (Revert ''Request already processed''))) \<and>
       isProcessed (certificationRequests s'' requestId) \<and>
       certificationRequests s'' requestId = certificationRequests s' requestId"
proof -
  from assms have pos: "0 < requestId" and lt: "requestId < nextRequestId s'"
    and pr: "isProcessed (certificationRequests s' requestId)"
    by (auto simp: processCertificationRequest_eq split: if_splits)
  have frozen: "certificationRequests (run X s' tr) requestId = certificationRequests s' requestId"
    by (rule run_processed_frozen [OF lt pr])
  have "requestId < nextRequestId (run X s' tr)"
    using lt run_counters [of s' X tr] by auto
  with pos pr frozen show ?thesis
    by (simp add: Let_def processCertificationRequest_eq commit_def emitted_def)
qed

theorem processed_once_witness:
  "processCertificationRequest scenario_prims \<lparr>msg_sender = 1, block_timestamp = 3000\<rparr>
      requested 1 ''Acme Certifiers'' =
     Inr (certified,
          [FHE_allow 80 2, FHE_allow 4 2, Emit (CertificateIssued 1 2 ''Software Engineer''),
           Emit (CertificationApproved 1 1)]) \<and>
   processCertificationRequest scenario_prims \<lparr>msg_sender = 1, block_timestamp = 5000\<rparr>
      (run scenario_prims certified
         [(\<lparr>msg_sender = 1, block_timestamp = 4000\<rparr>, AuthorizeIssuer 3 ''Acme'')])
      1 ''Other'' = Inl (Revert ''Request already processed'') \<and>
   isProcessed (certificationRequests
      (run scenario_prims certified
         [(\<lparr>msg_sender = 1, block_timestamp = 4000\<rparr>, AuthorizeIssuer 3 ''Acme'')]) 1)"
proof -
  have p: "processCertificationRequest scenario_prims \<lparr>msg_sender = 1, block_timestamp = 3000\<rparr>
      requested 1 ''Acme Certifiers'' =
     Inr (certified,
          [FHE_allow 80 2, FHE_allow 4 2, Emit (CertificateIssued 1 2 ''Software Engineer''),
           Emit (CertificationApproved 1 1)])"
    by (simp add: processCertificationRequest_eq requested_simps certified_eq days365_def
        scenario_prims_def)
  show ?thesis
    using p processed_once [OF p, of "[(\<lparr>msg_sender = 1, block_timestamp = 4000\<rparr>, AuthorizeIssuer 3 ''Acme'')]"
        "\<lparr>msg_sender = 1, block_timestamp = 5000\<rparr>" "''Other''"]
    by (simp add: Let_def exec_def commit_def authorizeIssuer_def onlyOwner_def certified_simps)
qed

subsection \<open>Reading certificates\<close>

text \<open>
  In every storage reached from the constructor the counter is at least 1 and a
  certificate whose flag is set has an id below the counter, so the count
  \<^verbatim>\<open>getCertificateCount\<close> is the last id assigned.
\<close>

lemma reachable_count:
  "getCertificateCount (run X (constructor e0) tr) =
     Inr (nextCertificateId (run X (constructor e0) tr) - 1)"
proof -
  have "nextCertificateId (run X (constructor e0) tr) \<noteq> 0"
    using reachable_valid_in_range [of X e0 tr] by simp
  then have "1 \<le> nextCertificateId (run X (constructor e0) tr)"
    by (simp add: word_le_nat_alt unat_gt_0 Suc_le_eq)
  then show ?thesis
    by (simp add: getCertificateCount_def checked_sub_def)
qed

lemma word_pred_less:
  fixes n c :: uint256
  assumes "n \<noteq> 0"
  shows "n - 1 < c \<longleftrightarrow> n \<le> c"
proof -
  have "unat (n - 1) = unat n - 1"
    using assms by (simp add: unat_minus_one)
  moreover have "0 < unat n"
    using assms by (simp add: unat_gt_0)
  ultimately show ?thesis
    by (auto simp: word_less_nat_alt word_le_nat_alt)
qed

text \<open>
  C3. In every storage reached from the constructor, \<^verbatim>\<open>verifyCertificate\<close> reverts for
  the id 0 and for every id above the last one assigned, for every certificate whose
  \<open>isValid\<close> is false and for every certificate whose \<open>expiryDate\<close> is not after the block
  time; for a valid, unexpired certificate it returns the seven stored fields. It is a
  \<^verbatim>\<open>view\<close> function: it returns a value and no storage. The guard of the modifier is
  \<^verbatim>\<open>_certificateId <= nextCertificateId\<close>, so the id \<open>nextCertificateId\<close> itself passes
  the range check; its slot was never written and the call reverts on the flag.
\<close>

theorem verifyCertificate_spec:
  assumes "s = run X (constructor e0) tr"
  shows
   "getCertificateCount s = Inr (nextCertificateId s - 1) \<and>
    (certificateId = 0 \<or> nextCertificateId s - 1 < certificateId
       \<longrightarrow> isl (verifyCertificate e s certificateId)) \<and>
    (\<not> isValid (certificates s certificateId) \<longrightarrow> isl (verifyCertificate e s certificateId)) \<and>
    (\<not> block_timestamp e < expiryDate (certificates s certificateId)
       \<longrightarrow> isl (verifyCertificate e s certificateId)) \<and>
    (isValid (certificates s certificateId) \<and>
     block_timestamp e < expiryDate (certificates s certificateId)
       \<longrightarrow> verifyCertificate e s certificateId =
             Inr (holder (certificates s certificateId),
                  profession (certificates s certificateId),
                  isValid (certificates s certificateId),
                  issueDate (certificates s certificateId),
                  expiryDate (certificates s certificateId),
                  issuer (certificates s certificateId),
                  hashedCredentials (certificates s certificateId)))"
proof -
  have nz: "nextCertificateId s \<noteq> 0"
    and rng: "isValid (certificates s c) \<Longrightarrow> 0 < c \<and> c < nextCertificateId s" for c
    using reachable_valid_in_range [of X e0 tr] assms by auto
  have out: "certificateId = 0 \<or> nextCertificateId s - 1 < certificateId
      \<Longrightarrow> \<not> isValid (certificates s certificateId)"
    using rng [of certificateId] word_pred_less [OF nz, of certificateId] by auto
  have cnt: "getCertificateCount s = Inr (nextCertificateId s - 1)"
    unfolding assms by (rule reachable_count)
  show ?thesis
    using out rng [of certificateId] cnt
    by (auto simp: verifyCertificate_def validCertificate_def Let_def)
qed

theorem verifyCertificate_spec_witness:
  "certified = run scenario_prims (constructor \<lparr>msg_sender = 1, block_timestamp = 1000\<rparr>)
      [scenario_request, scenario_process] \<and>
   getCertificateCount certified = Inr 1 \<and>
   isl (verifyCertificate \<lparr>msg_sender = 9, block_timestamp = 4000\<rparr> certified 0) \<and>
   isl (verifyCertificate \<lparr>msg_sender = 9, block_timestamp = 4000\<rparr> certified 2) \<and>
   isValid (certificates certified 1) \<and>
   (4000::uint256) < expiryDate (certificates certified 1) \<and>
   verifyCertificate \<lparr>msg_sender = 9, block_timestamp = 4000\<rparr> certified 1 =
     Inr (2, ''Software Engineer'', True, 3000, 31539000, ''Acme Certifiers'', 3001)"
proof -
  have r: "certified = run scenario_prims (constructor \<lparr>msg_sender = 1, block_timestamp = 1000\<rparr>)
      [scenario_request, scenario_process]"
    by (simp add: certified_def deployed_def)
  show ?thesis
    using r verifyCertificate_spec [OF r, of 0 "\<lparr>msg_sender = 9, block_timestamp = 4000\<rparr>"]
      verifyCertificate_spec [OF r, of 2 "\<lparr>msg_sender = 9, block_timestamp = 4000\<rparr>"]
      verifyCertificate_spec [OF r, of 1 "\<lparr>msg_sender = 9, block_timestamp = 4000\<rparr>"]
    by (simp add: certified_simps)
qed

text \<open>
  C9. In every storage reached from the constructor, \<^verbatim>\<open>getEncryptedScore\<close> and
  \<^verbatim>\<open>getEncryptedLevel\<close> return a handle exactly when the certificate is valid and
  unexpired and the caller is its holder, a flagged issuer or the owner, and the handle
  is the stored one; in every other case they revert.
\<close>

theorem encrypted_handle_access:
  assumes "s = run X (constructor e0) tr"
  shows
   "(getEncryptedScore e s certificateId = Inr h \<longleftrightarrow>
       isValid (certificates s certificateId) \<and>
       block_timestamp e < expiryDate (certificates s certificateId) \<and>
       (msg_sender e = holder (certificates s certificateId) \<or>
        authorizedIssuers s (msg_sender e) \<or> msg_sender e = owner s) \<and>
       h = encryptedScore (certificates s certificateId)) \<and>
    (isl (getEncryptedScore e s certificateId) \<longleftrightarrow>
       \<not> (isValid (certificates s certificateId) \<and>
          block_timestamp e < expiryDate (certificates s certificateId) \<and>
          (msg_sender e = holder (certificates s certificateId) \<or>
           authorizedIssuers s (msg_sender e) \<or> msg_sender e = owner s))) \<and>
    (getEncryptedLevel e s certificateId = Inr h' \<longleftrightarrow>
       isValid (certificates s certificateId) \<and>
       block_timestamp e < expiryDate (certificates s certificateId) \<and>
       (msg_sender e = holder (certificates s certificateId) \<or>
        authorizedIssuers s (msg_sender e) \<or> msg_sender e = owner s) \<and>
       h' = encryptedLevel (certificates s certificateId)) \<and>
    (isl (getEncryptedLevel e s certificateId) \<longleftrightarrow>
       \<not> (isValid (certificates s certificateId) \<and>
          block_timestamp e < expiryDate (certificates s certificateId) \<and>
          (msg_sender e = holder (certificates s certificateId) \<or>
           authorizedIssuers s (msg_sender e) \<or> msg_sender e = owner s)))"
proof -
  have rng: "isValid (certificates s certificateId)
      \<Longrightarrow> 0 < certificateId \<and> certificateId \<le> nextCertificateId s"
    using reachable_valid_in_range [of X e0 tr] assms by auto
  show ?thesis
    using rng
    by (auto simp: getEncryptedScore_def getEncryptedLevel_def validCertificate_def)
qed

theorem encrypted_handle_access_witness:
  "certified = run scenario_prims (constructor \<lparr>msg_sender = 1, block_timestamp = 1000\<rparr>)
      [scenario_request, scenario_process] \<and>
   getEncryptedScore \<lparr>msg_sender = 2, block_timestamp = 4000\<rparr> certified 1 = Inr 80 \<and>
   getEncryptedLevel \<lparr>msg_sender = 1, block_timestamp = 4000\<rparr> certified 1 = Inr 4 \<and>
   isl (getEncryptedScore \<lparr>msg_sender = 9, block_timestamp = 4000\<rparr> certified 1) \<and>
   isl (getEncryptedLevel \<lparr>msg_sender = 9, block_timestamp = 4000\<rparr> certified 1) \<and>
   isl (getEncryptedScore \<lparr>msg_sender = 2, block_timestamp = 31539000\<rparr> certified 1)"
proof -
  have r: "certified = run scenario_prims (constructor \<lparr>msg_sender = 1, block_timestamp = 1000\<rparr>)
      [scenario_request, scenario_process]"
    by (simp add: certified_def deployed_def)
  show ?thesis
    using r
      encrypted_handle_access [OF r, of "\<lparr>msg_sender = 2, block_timestamp = 4000\<rparr>" 1 80 4]
      encrypted_handle_access [OF r, of "\<lparr>msg_sender = 1, block_timestamp = 4000\<rparr>" 1 80 4]
      encrypted_handle_access [OF r, of "\<lparr>msg_sender = 9, block_timestamp = 4000\<rparr>" 1 80 4]
      encrypted_handle_access [OF r, of "\<lparr>msg_sender = 2, block_timestamp = 31539000\<rparr>" 1 80 4]
    by (simp add: certified_simps)
qed

subsection \<open>Revocation\<close>

text \<open>
  C4. Revocation is final. For a certificate that has been issued (its id is below
  \<open>nextCertificateId\<close>) and whose \<open>isValid\<close> is false, every sequence of transactions
  (owner functions, requests, processing and issuing, revocation, extension, pause) leaves
  the flag false. Read on the history of the contract: if the flag of an id was true
  after the transactions \<open>tr1\<close> and false after \<open>tr1 @ tr2\<close>, it is false after
  \<open>tr1 @ tr2 @ tr3\<close> for every \<open>tr3\<close>. The only write of \<open>True\<close> is the creation of the
  certificate in \<^verbatim>\<open>_issueCertificate\<close>, under an id never used before.
\<close>

theorem revocation_is_final:
  "(certificateId < nextCertificateId s \<and> \<not> isValid (certificates s certificateId)
      \<longrightarrow> \<not> isValid (certificates (run X s tr) certificateId)) \<and>
   (isValid (certificates (run X (constructor e0) tr1) certificateId) \<and>
    \<not> isValid (certificates (run X (constructor e0) (tr1 @ tr2)) certificateId)
      \<longrightarrow> \<not> isValid (certificates (run X (constructor e0) (tr1 @ tr2 @ tr3)) certificateId))"
proof (intro conjI impI)
  assume "certificateId < nextCertificateId s \<and> \<not> isValid (certificates s certificateId)"
  then show "\<not> isValid (certificates (run X s tr) certificateId)"
    using run_stays_invalid by blast
next
  let ?s1 = "run X (constructor e0) tr1"
  let ?s2 = "run X ?s1 tr2"
  assume a: "isValid (certificates ?s1 certificateId) \<and>
    \<not> isValid (certificates (run X (constructor e0) (tr1 @ tr2)) certificateId)"
  then have "certificateId < nextCertificateId ?s1"
    using reachable_valid_in_range [of X e0 tr1] by blast
  then have "certificateId < nextCertificateId ?s2"
    using run_counters [of ?s1 X tr2] by auto
  moreover have "\<not> isValid (certificates ?s2 certificateId)"
    using a by (simp add: run_append)
  ultimately have "\<not> isValid (certificates (run X ?s2 tr3) certificateId)"
    by (rule run_stays_invalid)
  then show "\<not> isValid (certificates (run X (constructor e0) (tr1 @ tr2 @ tr3)) certificateId)"
    by (simp add: run_append)
qed

theorem revocation_is_final_witness:
  "(1::uint256) < nextCertificateId (run scenario_prims certified [scenario_revoke]) \<and>
   \<not> isValid (certificates (run scenario_prims certified [scenario_revoke]) 1) \<and>
   \<not> isValid (certificates
        (run scenario_prims (run scenario_prims certified [scenario_revoke])
           [scenario_extend, scenario_request, scenario_process_second]) 1) \<and>
   isValid (certificates (run scenario_prims
      (constructor \<lparr>msg_sender = 1, block_timestamp = 1000\<rparr>)
      [scenario_request, scenario_process]) 1) \<and>
   \<not> isValid (certificates (run scenario_prims
      (constructor \<lparr>msg_sender = 1, block_timestamp = 1000\<rparr>)
      ([scenario_request, scenario_process] @ [scenario_revoke])) 1) \<and>
   \<not> isValid (certificates (run scenario_prims
      (constructor \<lparr>msg_sender = 1, block_timestamp = 1000\<rparr>)
      ([scenario_request, scenario_process] @ [scenario_revoke]
         @ [scenario_extend, scenario_request, scenario_process_second])) 1)"
proof -
  let ?c0 = "constructor \<lparr>msg_sender = 1, block_timestamp = 1000\<rparr>"
  let ?t1 = "[scenario_request, scenario_process]"
  let ?t3 = "[scenario_extend, scenario_request, scenario_process_second]"
  let ?revoked = "run scenario_prims certified [scenario_revoke]"
  have c: "run scenario_prims ?c0 ?t1 = certified"
    by (simp add: certified_def deployed_def)
  have n: "1 < nextCertificateId ?revoked"
    by (simp add: scenario_revoke_def exec_def commit_def revokeCertificate_def
      onlyAuthorizedIssuer_def validCertificate_def certified_simps)
  have f: "\<not> isValid (certificates ?revoked 1)"
    by (simp only: revoked_cert) simp
  have v: "isValid (certificates (run scenario_prims ?c0 ?t1) 1)"
    by (simp only: c certified_simps) simp
  have f': "\<not> isValid (certificates (run scenario_prims ?c0 (?t1 @ [scenario_revoke])) 1)"
  proof -
    have "run scenario_prims ?c0 (?t1 @ [scenario_revoke]) = ?revoked"
      by (simp only: run_append c)
    with f show ?thesis by simp
  qed
  note fin = revocation_is_final [of 1 ?revoked scenario_prims ?t3
      "\<lparr>msg_sender = 1, block_timestamp = 1000\<rparr>" ?t1 "[scenario_revoke]" ?t3]
  have a: "\<not> isValid (certificates (run scenario_prims ?revoked ?t3) 1)"
    using fin n f by blast
  have b: "\<not> isValid (certificates (run scenario_prims ?c0
      (?t1 @ [scenario_revoke] @ ?t3)) 1)"
    using fin v f' by blast
  from n f a v f' b show ?thesis by blast
qed

subsection \<open>Access control\<close>

text \<open>
  C5. A caller who is not the owner cannot run \<^verbatim>\<open>authorizeIssuer\<close>, \<^verbatim>\<open>revokeIssuer\<close> or
  \<^verbatim>\<open>setProfessionRequirements\<close>: each reverts with \<open>''Not authorized''\<close> and the storage
  after the transaction is the storage before it, so the issuer flags and the
  requirement maps are unchanged. A caller who is neither a flagged issuer nor the owner
  cannot run \<^verbatim>\<open>processCertificationRequest\<close>, \<^verbatim>\<open>revokeCertificate\<close> or
  \<^verbatim>\<open>extendCertificateValidity\<close>: each reverts with \<open>''Not authorized issuer''\<close> and the
  storage, with all requests and certificates, is unchanged.
\<close>

theorem guards_reject:
  "(msg_sender e \<noteq> owner s \<longrightarrow>
      authorizeIssuer e s a organization = Inl (Revert ''Not authorized'') \<and>
      revokeIssuer e s a = Inl (Revert ''Not authorized'') \<and>
      setProfessionRequirements e s p minScore minLevel = Inl (Revert ''Not authorized'') \<and>
      commit s (authorizeIssuer e s a organization) = s \<and>
      commit s (revokeIssuer e s a) = s \<and>
      commit s (setProfessionRequirements e s p minScore minLevel) = s \<and>
      exec X e (AuthorizeIssuer a organization) s = s \<and>
      exec X e (RevokeIssuer a) s = s \<and>
      exec X e (SetProfessionRequirements p minScore minLevel) s = s) \<and>
   (\<not> authorizedIssuers s (msg_sender e) \<and> msg_sender e \<noteq> owner s \<longrightarrow>
      processCertificationRequest X e s requestId issuerName
        = Inl (Revert ''Not authorized issuer'') \<and>
      revokeCertificate e s certificateId reason = Inl (Revert ''Not authorized issuer'') \<and>
      extendCertificateValidity e s certificateId additionalDays
        = Inl (Revert ''Not authorized issuer'') \<and>
      commit s (processCertificationRequest X e s requestId issuerName) = s \<and>
      commit s (revokeCertificate e s certificateId reason) = s \<and>
      commit s (extendCertificateValidity e s certificateId additionalDays) = s \<and>
      exec X e (ProcessCertificationRequest requestId issuerName) s = s \<and>
      exec X e (RevokeCertificate certificateId reason) s = s \<and>
      exec X e (ExtendCertificateValidity certificateId additionalDays) s = s)"
  by (simp add: authorizeIssuer_def revokeIssuer_def setProfessionRequirements_def
      processCertificationRequest_def revokeCertificate_def extendCertificateValidity_def
      onlyOwner_def onlyAuthorizedIssuer_def commit_def exec_def)

theorem guards_reject_witness:
  "(2::address) \<noteq> owner certified \<and>
   \<not> authorizedIssuers certified 2 \<and>
   authorizeIssuer \<lparr>msg_sender = 2, block_timestamp = 4000\<rparr> certified 2 ''Self''
     = Inl (Revert ''Not authorized'') \<and>
   revokeIssuer \<lparr>msg_sender = 2, block_timestamp = 4000\<rparr> certified 1
     = Inl (Revert ''Not authorized'') \<and>
   setProfessionRequirements \<lparr>msg_sender = 2, block_timestamp = 4000\<rparr> certified
     ''Software Engineer'' 0 0 = Inl (Revert ''Not authorized'') \<and>
   processCertificationRequest scenario_prims \<lparr>msg_sender = 2, block_timestamp = 4000\<rparr>
     certified 1 ''X'' = Inl (Revert ''Not authorized issuer'') \<and>
   revokeCertificate \<lparr>msg_sender = 2, block_timestamp = 4000\<rparr> certified 1 ''mine''
     = Inl (Revert ''Not authorized issuer'') \<and>
   extendCertificateValidity \<lparr>msg_sender = 2, block_timestamp = 4000\<rparr> certified 1 3650
     = Inl (Revert ''Not authorized issuer'') \<and>
   exec scenario_prims \<lparr>msg_sender = 2, block_timestamp = 4000\<rparr>
     (ExtendCertificateValidity 1 3650) certified = certified"
  using guards_reject [of "\<lparr>msg_sender = 2, block_timestamp = 4000\<rparr>" certified 2 "''Self''"
      "''Software Engineer''" 0 0 scenario_prims 1 "''X''" 1 "''mine''" 3650]
    guards_reject [of "\<lparr>msg_sender = 2, block_timestamp = 4000\<rparr>" certified 1 "''Self''"
      "''Software Engineer''" 0 0 scenario_prims 1 "''X''" 1 "''mine''" 3650]
  by (simp add: certified_simps)

subsection \<open>Submitting a request\<close>

text \<open>
  C6. \<^verbatim>\<open>requestCertification\<close> succeeds only if the score is at most 100, the level at
  most 10 and both strings are non-empty; with such arguments it succeeds, stores the
  request under \<open>nextRequestId\<close>, emits \<^verbatim>\<open>CertificationRequested\<close> and advances the counter
  by one. With any other arguments it reverts: nothing is stored, nothing is emitted and
  \<^verbatim>\<open>getRequestCount\<close> is what it was. The premise on \<open>nextRequestId\<close> says that the checked
  increment \<^verbatim>\<open>nextRequestId++\<close> stays below \<open>2 ^ 256\<close>.
\<close>

theorem requestCertification_validation:
  "let r = requestCertification X e s p score level ev;
       valid = (score \<le> 100 \<and> level \<le> 10 \<and> p \<noteq> [] \<and> ev \<noteq> [])
   in (\<not> isl r \<longrightarrow> valid) \<and>
      (unat (nextRequestId s) + 1 < 2 ^ 256 \<longrightarrow> (\<not> isl r \<longleftrightarrow> valid)) \<and>
      (valid \<and> unat (nextRequestId s) + 1 < 2 ^ 256 \<longrightarrow>
         certificationRequests (commit s r) (nextRequestId s) =
           \<lparr>applicant = msg_sender e, r_profession = p,
            r_encryptedScore = FHE_asEuint64 X score, r_encryptedLevel = FHE_asEuint8 X level,
            isProcessed = False, isApproved = False, requestTime = block_timestamp e,
            evidence = ev\<rparr> \<and>
         Emit (CertificationRequested (nextRequestId s) (msg_sender e) p) \<in> set (emitted r) \<and>
         unat (nextRequestId (commit s r)) = unat (nextRequestId s) + 1) \<and>
      (\<not> valid \<longrightarrow>
         isl r \<and> commit s r = s \<and> emitted r = [] \<and>
         certificationRequests (commit s r) = certificationRequests s \<and>
         nextRequestId (commit s r) = nextRequestId s \<and>
         getRequestCount (commit s r) = getRequestCount s)"
  by (auto simp: Let_def requestCertification_def checked_add_def commit_def emitted_def
      unat_succ_no_overflow(1))

theorem requestCertification_validation_witness:
  "unat (nextRequestId deployed) + 1 < (2::nat) ^ 256 \<and>
   \<not> isl (requestCertification scenario_prims \<lparr>msg_sender = 2, block_timestamp = 2000\<rparr>
      deployed ''Software Engineer'' 80 4 ''portfolio-link'') \<and>
   emitted (requestCertification scenario_prims \<lparr>msg_sender = 2, block_timestamp = 2000\<rparr>
      deployed ''Software Engineer'' 80 4 ''portfolio-link'') =
     [FHE_allowThis 80, FHE_allowThis 4, FHE_allow 80 2, FHE_allow 4 2,
      Emit (CertificationRequested 1 2 ''Software Engineer'')] \<and>
   getRequestCount (commit deployed
     (requestCertification scenario_prims \<lparr>msg_sender = 2, block_timestamp = 2000\<rparr>
        deployed ''Software Engineer'' 80 4 ''portfolio-link'')) = Inr 1 \<and>
   \<not> (150::uint64) \<le> 100 \<and>
   isl (requestCertification scenario_prims \<lparr>msg_sender = 2, block_timestamp = 2000\<rparr>
      deployed ''Software Engineer'' 150 4 ''portfolio-link'') \<and>
   emitted (requestCertification scenario_prims \<lparr>msg_sender = 2, block_timestamp = 2000\<rparr>
      deployed ''Software Engineer'' 150 4 ''portfolio-link'') = [] \<and>
   getRequestCount (commit deployed
     (requestCertification scenario_prims \<lparr>msg_sender = 2, block_timestamp = 2000\<rparr>
        deployed ''Software Engineer'' 150 4 ''portfolio-link'')) = getRequestCount deployed \<and>
   getRequestCount deployed = Inr 0"
  using requestCertification_validation [of scenario_prims
      "\<lparr>msg_sender = 2, block_timestamp = 2000\<rparr>" deployed "''Software Engineer''" 80 4
      "''portfolio-link''"]
    requestCertification_validation [of scenario_prims
      "\<lparr>msg_sender = 2, block_timestamp = 2000\<rparr>" deployed "''Software Engineer''" 150 4
      "''portfolio-link''"]
  by (simp add: Let_def deployed_simps getRequestCount_def checked_sub_def
      requestCertification_def checked_add_def emitted_def commit_def scenario_prims_def)

subsection \<open>Identifiers\<close>

text \<open>
  Each successful call announces the ids from the counter before the call up to the
  counter after it: one id or none. Over a sequence of transactions the ids announced
  are therefore the numbers from the first counter value to the last.
\<close>

lemma requestIds_append: "requestIds (xs @ ys) = requestIds xs @ requestIds ys"
  by (induction xs rule: requestIds.induct) auto

lemma certificateIds_append: "certificateIds (xs @ ys) = certificateIds xs @ certificateIds ys"
  by (induction xs rule: certificateIds.induct) auto

lemma exec_requestIds:
  "map unat (requestIds (emitted (dispatch X e c s))) =
     [unat (nextRequestId s) ..< unat (nextRequestId (exec X e c s))]"
  by (cases c)
    (auto simp: exec_def commit_def emitted_def call_defs unat_succ_no_overflow(1)
      split: sum.splits)

lemma exec_certificateIds:
  "map unat (certificateIds (emitted (dispatch X e c s))) =
     [unat (nextCertificateId s) ..< unat (nextCertificateId (exec X e c s))]"
  by (cases c)
    (auto simp: exec_def commit_def emitted_def call_defs unat_succ_no_overflow(1)
      split: sum.splits)

lemma upt_join:
  fixes a b c :: nat
  shows "a \<le> b \<Longrightarrow> b \<le> c \<Longrightarrow> [a ..< b] @ [b ..< c] = [a ..< c]"
  by (metis le_Suc_ex upt_add_eq_append)

lemma run_requestIds:
  "map unat (requestIds (run_effects X s tr)) =
     [unat (nextRequestId s) ..< unat (nextRequestId (run X s tr))]"
proof (induction tr arbitrary: s)
  case Nil
  show ?case by simp
next
  case (Cons a tr)
  obtain e c where a: "a = (e, c)" by (cases a)
  have 1: "unat (nextRequestId s) \<le> unat (nextRequestId (exec X e c s))"
    using exec_counters [of s X e c] by (simp add: word_le_nat_alt)
  have 2: "unat (nextRequestId (exec X e c s)) \<le> unat (nextRequestId (run X (exec X e c s) tr))"
    using run_counters [of "exec X e c s" X tr] by (simp add: word_le_nat_alt)
  show ?case
    unfolding a
    by (simp add: requestIds_append exec_requestIds Cons.IH upt_join [OF 1 2])
qed

lemma run_certificateIds:
  "map unat (certificateIds (run_effects X s tr)) =
     [unat (nextCertificateId s) ..< unat (nextCertificateId (run X s tr))]"
proof (induction tr arbitrary: s)
  case Nil
  show ?case by simp
next
  case (Cons a tr)
  obtain e c where a: "a = (e, c)" by (cases a)
  have 1: "unat (nextCertificateId s) \<le> unat (nextCertificateId (exec X e c s))"
    using exec_counters [of s X e c] by (simp add: word_le_nat_alt)
  have 2: "unat (nextCertificateId (exec X e c s))
      \<le> unat (nextCertificateId (run X (exec X e c s) tr))"
    using run_counters [of "exec X e c s" X tr] by (simp add: word_le_nat_alt)
  show ?case
    unfolding a
    by (simp add: certificateIds_append exec_certificateIds Cons.IH upt_join [OF 1 2])
qed

lemma strictly_increasing_unat:
  fixes xs :: "uint256 list"
  assumes "map unat xs = [a ..< b]"
  shows "sorted_wrt (<) xs \<and> distinct xs"
proof -
  have "sorted_wrt (<) (map unat xs)"
    unfolding assms by simp
  then have "sorted_wrt (\<lambda>x y. unat x < unat y) xs"
    by (simp add: sorted_wrt_map)
  moreover have "(\<lambda>x y :: uint256. unat x < unat y) = (<)"
    by (intro ext) (simp add: word_less_nat_alt)
  ultimately have s: "sorted_wrt (<) xs"
    by simp
  have "distinct (map unat xs)"
    unfolding assms by simp
  then have "distinct xs"
    by (simp add: distinct_map)
  with s show ?thesis by simp
qed

text \<open>
  C7. Over every sequence of transactions from the constructor, where both counters
  are 1, the request ids assigned are, in order, 1, 2, 3 and so on up to
  \<open>nextRequestId - 1\<close> and the certificate ids assigned are 1, 2, 3 and so on up to
  \<open>nextCertificateId - 1\<close>: the first id is 1, each later id is strictly larger than all
  earlier ones, and no id is assigned twice. In every storage \<open>s\<close> reached, a successful
  \<^verbatim>\<open>requestCertification\<close> receives the id \<open>nextRequestId s\<close>: it announces exactly that
  id, the slot of that id was empty before, the request is stored there, every other
  request is untouched and the counter grows by one. Likewise a successful
  \<^verbatim>\<open>processCertificationRequest\<close> issues its certificate under \<open>nextCertificateId s\<close>:
  it announces exactly that id, the slot was empty before, the certificate of the
  applicant is stored there and the id appended to the applicant's list, every other
  certificate is untouched and the counter grows by one.
\<close>

theorem ids_assigned_in_order:
  "let s = run X (constructor e0) tr
   in map unat (requestIds (run_effects X (constructor e0) tr)) = [1 ..< unat (nextRequestId s)] \<and>
      sorted_wrt (<) (requestIds (run_effects X (constructor e0) tr)) \<and>
      distinct (requestIds (run_effects X (constructor e0) tr)) \<and>
      map unat (certificateIds (run_effects X (constructor e0) tr)) =
        [1 ..< unat (nextCertificateId s)] \<and>
      sorted_wrt (<) (certificateIds (run_effects X (constructor e0) tr)) \<and>
      distinct (certificateIds (run_effects X (constructor e0) tr)) \<and>
      nextRequestId (constructor e0) = 1 \<and>
      nextCertificateId (constructor e0) = 1 \<and>
      1 \<le> unat (nextRequestId s) \<and>
      1 \<le> unat (nextCertificateId s) \<and>
      (\<forall>e p score level ev s' effs.
         requestCertification X e s p score level ev = Inr (s', effs) \<longrightarrow>
           requestIds effs = [nextRequestId s] \<and>
           certificationRequests s (nextRequestId s) = zero_request \<and>
           certificationRequests s' (nextRequestId s) =
             \<lparr>applicant = msg_sender e, r_profession = p,
              r_encryptedScore = FHE_asEuint64 X score,
              r_encryptedLevel = FHE_asEuint8 X level,
              isProcessed = False, isApproved = False,
              requestTime = block_timestamp e, evidence = ev\<rparr> \<and>
           (\<forall>other. other \<noteq> nextRequestId s \<longrightarrow>
              certificationRequests s' other = certificationRequests s other) \<and>
           unat (nextRequestId s') = unat (nextRequestId s) + 1) \<and>
      (\<forall>e requestId issuerName s' effs.
         processCertificationRequest X e s requestId issuerName = Inr (s', effs) \<longrightarrow>
           certificateIds effs = [nextCertificateId s] \<and>
           certificates s (nextCertificateId s) = zero_certificate \<and>
           isValid (certificates s' (nextCertificateId s)) \<and>
           holder (certificates s' (nextCertificateId s)) =
             applicant (certificationRequests s requestId) \<and>
           issuer (certificates s' (nextCertificateId s)) = issuerName \<and>
           holderCertificates s' (applicant (certificationRequests s requestId)) =
             holderCertificates s (applicant (certificationRequests s requestId))
               @ [nextCertificateId s] \<and>
           (\<forall>other. other \<noteq> nextCertificateId s \<longrightarrow>
              certificates s' other = certificates s other) \<and>
           unat (nextCertificateId s') = unat (nextCertificateId s) + 1)"
proof -
  let ?s = "run X (constructor e0) tr"
  have r: "map unat (requestIds (run_effects X (constructor e0) tr)) =
     [1 ..< unat (nextRequestId ?s)]"
    using run_requestIds [of X "constructor e0" tr] by (simp add: constructor_def)
  have c: "map unat (certificateIds (run_effects X (constructor e0) tr)) =
     [1 ..< unat (nextCertificateId ?s)]"
    using run_certificateIds [of X "constructor e0" tr] by (simp add: constructor_def)
  note fresh = reachable_fresh_slots [of X e0 tr]
  have nr: "1 \<le> unat (nextRequestId ?s)" and nc: "1 \<le> unat (nextCertificateId ?s)"
    using fresh by (simp_all add: unat_gt_0 Suc_le_eq)
  have fr: "certificationRequests ?s (nextRequestId ?s) = zero_request"
    and fc: "certificates ?s (nextCertificateId ?s) = zero_certificate"
    using fresh by simp_all
  have req: "requestIds effs = [nextRequestId ?s] \<and>
           certificationRequests s' (nextRequestId ?s) =
             \<lparr>applicant = msg_sender e, r_profession = p,
              r_encryptedScore = FHE_asEuint64 X score,
              r_encryptedLevel = FHE_asEuint8 X level,
              isProcessed = False, isApproved = False,
              requestTime = block_timestamp e, evidence = ev\<rparr> \<and>
           (\<forall>other. other \<noteq> nextRequestId ?s \<longrightarrow>
              certificationRequests s' other = certificationRequests ?s other) \<and>
           unat (nextRequestId s') = unat (nextRequestId ?s) + 1"
    if "requestCertification X e ?s p score level ev = Inr (s', effs)"
    for e p score level ev s' effs
    using that
    by (auto simp: requestCertification_def Let_def checked_add_def unat_succ_no_overflow(1)
        split: if_splits)
  have iss: "certificateIds effs = [nextCertificateId ?s] \<and>
           isValid (certificates s' (nextCertificateId ?s)) \<and>
           holder (certificates s' (nextCertificateId ?s)) =
             applicant (certificationRequests ?s requestId) \<and>
           issuer (certificates s' (nextCertificateId ?s)) = issuerName \<and>
           holderCertificates s' (applicant (certificationRequests ?s requestId)) =
             holderCertificates ?s (applicant (certificationRequests ?s requestId))
               @ [nextCertificateId ?s] \<and>
           (\<forall>other. other \<noteq> nextCertificateId ?s \<longrightarrow>
              certificates s' other = certificates ?s other) \<and>
           unat (nextCertificateId s') = unat (nextCertificateId ?s) + 1"
    if "processCertificationRequest X e ?s requestId issuerName = Inr (s', effs)"
    for e requestId issuerName s' effs
    using that
    by (auto simp: processCertificationRequest_eq unat_succ_no_overflow(1) split: if_splits)
  have k: "nextRequestId (constructor e0) = 1 \<and> nextCertificateId (constructor e0) = 1"
    by (simp add: constructor_def)
  show ?thesis
    unfolding Let_def
    using r c strictly_increasing_unat [OF r] strictly_increasing_unat [OF c] nr nc fr fc k
      req iss
    by blast
qed


theorem ids_assigned_in_order_witness:
  "requestIds (run_effects scenario_prims
      (constructor \<lparr>msg_sender = 1, block_timestamp = 1000\<rparr>)
      [scenario_request, scenario_process, scenario_request, scenario_process_second])
     = [1, 2] \<and>
   certificateIds (run_effects scenario_prims
      (constructor \<lparr>msg_sender = 1, block_timestamp = 1000\<rparr>)
      [scenario_request, scenario_process, scenario_request, scenario_process_second])
     = [1, 2] \<and>
   map unat (requestIds (run_effects scenario_prims
      (constructor \<lparr>msg_sender = 1, block_timestamp = 1000\<rparr>)
      [scenario_request, scenario_process, scenario_request, scenario_process_second]))
     = [1 ..< unat (nextRequestId (run scenario_prims
      (constructor \<lparr>msg_sender = 1, block_timestamp = 1000\<rparr>)
      [scenario_request, scenario_process, scenario_request, scenario_process_second]))] \<and>
   sorted_wrt (<) (certificateIds (run_effects scenario_prims
      (constructor \<lparr>msg_sender = 1, block_timestamp = 1000\<rparr>)
      [scenario_request, scenario_process, scenario_request, scenario_process_second])) \<and>
   \<not> isl (requestCertification scenario_prims \<lparr>msg_sender = 3, block_timestamp = 4000\<rparr>
      certified ''Data Scientist'' 90 5 ''thesis'') \<and>
   requestIds (emitted (requestCertification scenario_prims
      \<lparr>msg_sender = 3, block_timestamp = 4000\<rparr> certified ''Data Scientist'' 90 5 ''thesis''))
     = [2] \<and>
   certificationRequests certified 2 = zero_request \<and>
   applicant (certificationRequests (commit certified (requestCertification scenario_prims
      \<lparr>msg_sender = 3, block_timestamp = 4000\<rparr> certified ''Data Scientist'' 90 5 ''thesis'')) 2)
     = 3 \<and>
   applicant (certificationRequests (commit certified (requestCertification scenario_prims
      \<lparr>msg_sender = 3, block_timestamp = 4000\<rparr> certified ''Data Scientist'' 90 5 ''thesis'')) 1)
     = 2 \<and>
   \<not> isl (processCertificationRequest scenario_prims
      \<lparr>msg_sender = 1, block_timestamp = 3000\<rparr> requested 1 ''Acme Certifiers'') \<and>
   certificateIds (emitted (processCertificationRequest scenario_prims
      \<lparr>msg_sender = 1, block_timestamp = 3000\<rparr> requested 1 ''Acme Certifiers'')) = [1] \<and>
   certificates requested 1 = zero_certificate \<and>
   isValid (certificates (commit requested (processCertificationRequest scenario_prims
      \<lparr>msg_sender = 1, block_timestamp = 3000\<rparr> requested 1 ''Acme Certifiers'')) 1)"
proof -
  let ?e0 = "\<lparr>msg_sender = 1, block_timestamp = 1000\<rparr>"
  let ?rq = "requestCertification scenario_prims \<lparr>msg_sender = 3, block_timestamp = 4000\<rparr>
      certified ''Data Scientist'' 90 5 ''thesis''"
  let ?pr = "processCertificationRequest scenario_prims
      \<lparr>msg_sender = 1, block_timestamp = 3000\<rparr> requested 1 ''Acme Certifiers''"
  have ok_rq: "\<not> isl ?rq"
    by (simp add: requestCertification_def checked_add_def Let_def certified_simps)
  have ok_pr: "\<not> isl ?pr"
    by (simp add: processCertificationRequest_eq requested_simps days365_def)
  note long = ids_assigned_in_order [of scenario_prims ?e0
      "[scenario_request, scenario_process, scenario_request, scenario_process_second]"]
  note at_certified = ids_assigned_in_order [of scenario_prims ?e0
      "[scenario_request, scenario_process]", unfolded Let_def certified_reached [symmetric]]
  note at_requested = ids_assigned_in_order [of scenario_prims ?e0
      "[scenario_request]", unfolded Let_def requested_reached [symmetric]]
  have a: "requestIds (emitted ?rq) = [2] \<and> certificationRequests certified 2 = zero_request \<and>
      applicant (certificationRequests (commit certified ?rq) 2) = 3 \<and>
      applicant (certificationRequests (commit certified ?rq) 1) = 2"
    using at_certified success_commit [OF ok_rq, of certified]
    by (auto simp: certified_simps)
  have b: "certificateIds (emitted ?pr) = [1] \<and> certificates requested 1 = zero_certificate \<and>
      isValid (certificates (commit requested ?pr) 1)"
    using at_requested success_commit [OF ok_pr, of requested]
    by (auto simp: requested_simps)
  show ?thesis
    using long two_rounds a b ok_rq ok_pr
    by (simp add: deployed_def Let_def del: run_effects.simps run.simps)
qed


subsection \<open>Extension\<close>

text \<open>
  C8, as the code has it. In every storage reached from the constructor, for a call of
  \<^verbatim>\<open>extendCertificateValidity\<close> by a flagged issuer or the owner on a valid, unexpired
  certificate: if the old expiry plus \<open>additionalDays\<close> times 86400 is below \<open>2 ^ 256\<close>,
  the call succeeds and the new expiry is that sum, and no other bound is checked; if
  not, the multiplication \<^verbatim>\<open>_additionalDays * 1 days\<close> or the addition overflows, the
  call reverts and the expiry is unchanged. And in every storage whatever, the first
  certificate included, a certificate issued by \<^verbatim>\<open>processCertificationRequest\<close>
  (through \<^verbatim>\<open>_issueCertificate\<close>) is valid, has \<open>issueDate\<close> the block time and
  \<open>expiryDate\<close> 365 days later.
\<close>

theorem extendCertificateValidity_checked:
  "(s = run X (constructor e0) tr \<and>
    (authorizedIssuers s (msg_sender e) \<or> msg_sender e = owner s) \<and>
    isValid (certificates s certificateId) \<and>
    block_timestamp e < expiryDate (certificates s certificateId) \<longrightarrow>
      (let r = extendCertificateValidity e s certificateId additionalDays;
           old = expiryDate (certificates s certificateId)
       in (unat old + unat additionalDays * 86400 < 2 ^ 256 \<longrightarrow>
             r = Inr (s\<lparr>certificates := (certificates s)(certificateId :=
                         (certificates s certificateId)
                           \<lparr>expiryDate := old + additionalDays * one_day\<rparr>)\<rparr>, []) \<and>
             unat (expiryDate (certificates (commit s r) certificateId)) =
               unat old + unat additionalDays * 86400) \<and>
          (\<not> unat old + unat additionalDays * 86400 < 2 ^ 256 \<longrightarrow>
             r = Inl Panic_overflow \<and> commit s r = s \<and>
             expiryDate (certificates (commit s r) certificateId) = old))) \<and>
   (\<forall>e' s0 requestId issuerName s' effs.
      processCertificationRequest X e' s0 requestId issuerName = Inr (s', effs) \<longrightarrow>
        isValid (certificates s' (nextCertificateId s0)) \<and>
        issueDate (certificates s' (nextCertificateId s0)) = block_timestamp e' \<and>
        unat (expiryDate (certificates s' (nextCertificateId s0))) =
          unat (issueDate (certificates s' (nextCertificateId s0))) + 365 * 86400) \<and>
   (\<forall>e' s0 h p encScore encLevel issuerName s' effs.
      issueCertificate X e' s0 h p encScore encLevel issuerName = Inr (s', effs) \<longrightarrow>
        isValid (certificates s' (nextCertificateId s0)) \<and>
        issueDate (certificates s' (nextCertificateId s0)) = block_timestamp e' \<and>
        unat (expiryDate (certificates s' (nextCertificateId s0))) =
          unat (issueDate (certificates s' (nextCertificateId s0))) + 365 * 86400)"
proof (intro conjI impI allI)
  assume h: "s = run X (constructor e0) tr \<and>
    (authorizedIssuers s (msg_sender e) \<or> msg_sender e = owner s) \<and>
    isValid (certificates s certificateId) \<and>
    block_timestamp e < expiryDate (certificates s certificateId)"
  have rng: "0 < certificateId \<and> certificateId \<le> nextCertificateId s"
    using reachable_valid_in_range [of X e0 tr] h by auto
  have day: "unat one_day = 86400"
    by (simp add: one_day_def)
  have mul: "unat (additionalDays * one_day) = unat additionalDays * 86400"
    if "unat additionalDays * 86400 < 2 ^ 256"
    using that by (simp add: unat_word_ariths day)
  have add: "unat (expiryDate (certificates s certificateId) + additionalDays * one_day) =
      unat (expiryDate (certificates s certificateId)) + unat additionalDays * 86400"
    if "unat (expiryDate (certificates s certificateId)) + unat additionalDays * 86400 < 2 ^ 256"
    using that mul by (simp add: unat_word_ariths)
  have ext: "extendCertificateValidity e s certificateId additionalDays =
     (if unat (expiryDate (certificates s certificateId)) + unat additionalDays * 86400 < 2 ^ 256
      then Inr (s\<lparr>certificates := (certificates s)(certificateId :=
                      (certificates s certificateId)
                        \<lparr>expiryDate := expiryDate (certificates s certificateId)
                            + additionalDays * one_day\<rparr>)\<rparr>, [])
      else Inl Panic_overflow)"
    using rng h mul
    by (auto simp: extendCertificateValidity_def onlyAuthorizedIssuer_def validCertificate_def
        checked_mul_def checked_add_def day)
  show "let r = extendCertificateValidity e s certificateId additionalDays;
           old = expiryDate (certificates s certificateId)
       in (unat old + unat additionalDays * 86400 < 2 ^ 256 \<longrightarrow>
             r = Inr (s\<lparr>certificates := (certificates s)(certificateId :=
                         (certificates s certificateId)
                           \<lparr>expiryDate := old + additionalDays * one_day\<rparr>)\<rparr>, []) \<and>
             unat (expiryDate (certificates (commit s r) certificateId)) =
               unat old + unat additionalDays * 86400) \<and>
          (\<not> unat old + unat additionalDays * 86400 < 2 ^ 256 \<longrightarrow>
             r = Inl Panic_overflow \<and> commit s r = s \<and>
             expiryDate (certificates (commit s r) certificateId) = old)"
    unfolding Let_def ext using add by (auto simp: commit_def)
next
  fix e' s0 requestId issuerName s' effs
  assume "processCertificationRequest X e' s0 requestId issuerName = Inr (s', effs)"
  then show "isValid (certificates s' (nextCertificateId s0))"
    and "issueDate (certificates s' (nextCertificateId s0)) = block_timestamp e'"
    and "unat (expiryDate (certificates s' (nextCertificateId s0))) =
          unat (issueDate (certificates s' (nextCertificateId s0))) + 365 * 86400"
    by (auto simp: processCertificationRequest_eq days365_def unat_word_ariths
        split: if_splits)
next
  fix e' s0 h p encScore encLevel issuerName s' effs
  assume "issueCertificate X e' s0 h p encScore encLevel issuerName = Inr (s', effs)"
  then show "isValid (certificates s' (nextCertificateId s0))"
    and "issueDate (certificates s' (nextCertificateId s0)) = block_timestamp e'"
    and "unat (expiryDate (certificates s' (nextCertificateId s0))) =
          unat (issueDate (certificates s' (nextCertificateId s0))) + 365 * 86400"
    by (auto simp: issueCertificate_eq days365_def unat_word_ariths split: if_splits)
qed

theorem extendCertificateValidity_checked_witness:
  "certified = run scenario_prims (constructor \<lparr>msg_sender = 1, block_timestamp = 1000\<rparr>)
      [scenario_request, scenario_process] \<and>
   (authorizedIssuers certified 1 \<or> 1 = owner certified) \<and>
   isValid (certificates certified 1) \<and>
   (5000::uint256) < expiryDate (certificates certified 1) \<and>
   unat (expiryDate (certificates certified 1)) + unat (30::uint256) * 86400 < (2::nat) ^ 256 \<and>
   \<not> isl (extendCertificateValidity \<lparr>msg_sender = 1, block_timestamp = 5000\<rparr> certified 1 30) \<and>
   unat (expiryDate (certificates (commit certified
     (extendCertificateValidity \<lparr>msg_sender = 1, block_timestamp = 5000\<rparr> certified 1 30)) 1))
     = 31539000 + 30 * 86400 \<and>
   nextCertificateId requested = 1 \<and>
   \<not> isl (processCertificationRequest scenario_prims
      \<lparr>msg_sender = 1, block_timestamp = 3000\<rparr> requested 1 ''Acme Certifiers'') \<and>
   issueDate (certificates (commit requested (processCertificationRequest scenario_prims
      \<lparr>msg_sender = 1, block_timestamp = 3000\<rparr> requested 1 ''Acme Certifiers'')) 1) = 3000 \<and>
   unat (expiryDate (certificates (commit requested (processCertificationRequest scenario_prims
      \<lparr>msg_sender = 1, block_timestamp = 3000\<rparr> requested 1 ''Acme Certifiers'')) 1))
     = 3000 + 365 * 86400"
proof -
  let ?e = "\<lparr>msg_sender = 1, block_timestamp = 5000\<rparr>"
  let ?pr = "processCertificationRequest scenario_prims
      \<lparr>msg_sender = 1, block_timestamp = 3000\<rparr> requested 1 ''Acme Certifiers''"
  note T = extendCertificateValidity_checked [of certified scenario_prims
      "\<lparr>msg_sender = 1, block_timestamp = 1000\<rparr>" "[scenario_request, scenario_process]"
      ?e 1 30]
  have ok_pr: "\<not> isl ?pr"
    by (simp add: processCertificationRequest_eq requested_simps days365_def)
  have hyp: "certified = run scenario_prims (constructor \<lparr>msg_sender = 1, block_timestamp = 1000\<rparr>)
      [scenario_request, scenario_process] \<and>
    (authorizedIssuers certified (msg_sender ?e) \<or> msg_sender ?e = owner certified) \<and>
    isValid (certificates certified 1) \<and>
    block_timestamp ?e < expiryDate (certificates certified 1)"
    using certified_reached by (simp add: certified_simps)
  have fits: "unat (expiryDate (certificates certified 1)) + unat (30::uint256) * 86400
      < (2::nat) ^ 256"
    by (simp add: certified_simps)
  have a: "\<not> isl (extendCertificateValidity ?e certified 1 30) \<and>
     unat (expiryDate (certificates (commit certified
       (extendCertificateValidity ?e certified 1 30)) 1)) = 31539000 + 30 * 86400"
    using T [THEN conjunct1, rule_format, OF hyp] fits
    by (simp add: Let_def certified_simps commit_def one_day_def)
  have b: "issueDate (certificates (commit requested ?pr) 1) = 3000 \<and>
     unat (expiryDate (certificates (commit requested ?pr) 1)) = 3000 + 365 * 86400"
    using T [THEN conjunct2, THEN conjunct1, rule_format,
        OF success_commit [OF ok_pr, of requested]]
    by (simp add: requested_simps)
  from hyp fits a b ok_pr show ?thesis
    by (simp add: requested_simps)
qed

text \<open>
  C8 as it is written fails. The owner extends certificate 1 of the scenario (expiry
  31539000) by \<open>2 ^ 256 - 1\<close> days: the multiplication overflows, the call reverts and
  the expiry is still 31539000, which is neither the sum in the natural numbers nor the
  sum modulo \<open>2 ^ 256\<close> (31452600).
\<close>

theorem extendCertificateValidity_unbounded_counterexample:
  "certified = run scenario_prims (constructor \<lparr>msg_sender = 1, block_timestamp = 1000\<rparr>)
      [scenario_request, scenario_process] \<and>
   (authorizedIssuers certified 1 \<or> 1 = owner certified) \<and>
   isValid (certificates certified 1) \<and>
   (5000::uint256) < expiryDate (certificates certified 1) \<and>
   extendCertificateValidity \<lparr>msg_sender = 1, block_timestamp = 5000\<rparr> certified 1
     115792089237316195423570985008687907853269984665640564039457584007913129639935
     = Inl Panic_overflow \<and>
   expiryDate (certificates (commit certified
     (extendCertificateValidity \<lparr>msg_sender = 1, block_timestamp = 5000\<rparr> certified 1
        115792089237316195423570985008687907853269984665640564039457584007913129639935)) 1)
     = 31539000 \<and>
   expiryDate (certificates certified 1)
     + 115792089237316195423570985008687907853269984665640564039457584007913129639935 * one_day
     = 31452600 \<and>
   unat (expiryDate (certificates certified 1))
     + unat (115792089237316195423570985008687907853269984665640564039457584007913129639935
             :: uint256) * 86400
     \<noteq> unat (expiryDate (certificates (commit certified
     (extendCertificateValidity \<lparr>msg_sender = 1, block_timestamp = 5000\<rparr> certified 1
        115792089237316195423570985008687907853269984665640564039457584007913129639935)) 1))"
  by (simp add: certified_reached [symmetric] certified_simps extendCertificateValidity_def
      onlyAuthorizedIssuer_def validCertificate_def checked_mul_def checked_add_def one_day_def
      commit_def)

subsection \<open>emergencyPause\<close>

text \<open>
  C10. For every storage, \<^verbatim>\<open>emergencyPause\<close> called by the owner succeeds, returns the
  storage it was given (every field unchanged) and emits nothing.
\<close>

theorem emergencyPause_noop:
  "msg_sender e = owner s \<Longrightarrow>
     emergencyPause e s = Inr (s, []) \<and>
     commit s (emergencyPause e s) = s \<and>
     emitted (emergencyPause e s) = []"
  by (simp add: emergencyPause_def onlyOwner_def commit_def emitted_def)

theorem emergencyPause_noop_witness:
  "msg_sender \<lparr>msg_sender = 7, block_timestamp = 1000\<rparr>
     = owner (constructor \<lparr>msg_sender = 7, block_timestamp = 0\<rparr>) \<and>
   emergencyPause \<lparr>msg_sender = 7, block_timestamp = 1000\<rparr>
       (constructor \<lparr>msg_sender = 7, block_timestamp = 0\<rparr>)
     = Inr (constructor \<lparr>msg_sender = 7, block_timestamp = 0\<rparr>, [])"
  using emergencyPause_noop [of "\<lparr>msg_sender = 7, block_timestamp = 1000\<rparr>"
      "constructor \<lparr>msg_sender = 7, block_timestamp = 0\<rparr>"]
  by (simp add: constructor_def)

end
